theory Spec2Isabelle
  imports Complex_Main "HOL-Library.Char_ord" "HOL-Library.List_Lexorder"
begin

text \<open>
  An embedding of \<open>scripts/temperature-map.js\<close>: the loading of the temperature
  payload, the rendering of a heatmap frame, the aggregation of a country's trend, and
  the handlers of the page (playback, slider, anomaly mode, country selection) as
  functions on the module state. The external library (projection, point-in-polygon
  test, date parser) is a parameter.
\<close>

section \<open>JavaScript values\<close>

text \<open>
  The temperature readings are JavaScript numbers. A number is modelled as an exact
  rational or \<open>NaN\<close>: the rounding and the infinities of IEEE doubles are outside the
  model, \<open>NaN\<close> is kept because it is what arithmetic on \<open>undefined\<close> gives. An
  array element read from the JSON payload is a number or \<open>null\<close>; a read past the end
  of an array gives \<open>undefined\<close>.
\<close>

datatype jsnum = NaN | Fin rat

datatype jsval = Undefined | Null | Number jsnum

datatype jserror = TypeError

fun to_number :: "jsval \<Rightarrow> jsnum" where
  "to_number Undefined = NaN"
| "to_number Null = Fin 0"
| "to_number (Number n) = n"

fun num_add :: "jsnum \<Rightarrow> jsnum \<Rightarrow> jsnum" where
  "num_add (Fin a) (Fin b) = Fin (a + b)"
| "num_add _ _ = NaN"

fun num_sub :: "jsnum \<Rightarrow> jsnum \<Rightarrow> jsnum" where
  "num_sub (Fin a) (Fin b) = Fin (a - b)"
| "num_sub _ _ = NaN"

text \<open>\<open>sum / count\<close> for a loop counter \<open>count\<close>; the source divides only when \<open>count > 0\<close>.\<close>

fun num_div :: "jsnum \<Rightarrow> nat \<Rightarrow> jsnum" where
  "num_div (Fin a) n = Fin (a / of_nat n)"
| "num_div NaN n = NaN"

definition js_sub :: "jsval \<Rightarrow> jsval \<Rightarrow> jsnum" where
  "js_sub a b = num_sub (to_number a) (to_number b)"

definition js_add :: "jsnum \<Rightarrow> jsval \<Rightarrow> jsnum" where
  "js_add s v = num_add s (to_number v)"

text \<open>\<open>xs[i]\<close>: \<open>undefined\<close> past the end.\<close>

definition arr_get :: "jsval list \<Rightarrow> nat \<Rightarrow> jsval" where
  "arr_get xs i = (if i < length xs then xs ! i else Undefined)"

text \<open>
  A handler that throws leaves the module state as it was at the throw, so the result of
  a handler carries the state in both cases.
\<close>

datatype 'a outcome = Done 'a | Thrown jserror 'a

fun final :: "'a outcome \<Rightarrow> 'a" where
  "final (Done s) = s"
| "final (Thrown e s) = s"

fun completed :: "'a outcome \<Rightarrow> bool" where
  "completed (Done s) = True"
| "completed (Thrown e s) = False"

subsection \<open>Objects keyed by strings\<close>

text \<open>
  The parsed \<open>temperatures\<close> object is an association list from date key to its value,
  an array or \<open>null\<close> (\<open>None\<close>); a key is looked up at its first occurrence. A missing
  property reads as \<open>undefined\<close>, which the code only ever tests for truthiness or
  indexes, exactly as it does \<open>null\<close>: both are \<open>None\<close>. Properties inherited from
  \<open>Object.prototype\<close> are not modelled.
\<close>

type_synonym temps_obj = "(string \<times> jsval list option) list"

definition object_keys :: "temps_obj \<Rightarrow> string list" where
  "object_keys obj = remdups (map fst obj)"

definition object_get :: "temps_obj \<Rightarrow> string \<Rightarrow> jsval list option" where
  "object_get obj k = (case map_of obj k of None \<Rightarrow> None | Some v \<Rightarrow> v)"

subsection \<open>Strings\<close>

text \<open>\<open>s.split(c)\<close> for a one-character separator: never empty.\<close>

fun split_on :: "char \<Rightarrow> string \<Rightarrow> string list" where
  "split_on c [] = [[]]"
| "split_on c (x # xs) =
     (if x = c then [] # split_on c xs
      else (case split_on c xs of p # ps \<Rightarrow> (x # p) # ps | [] \<Rightarrow> [[x]]))"

definition startsWith :: "string \<Rightarrow> string \<Rightarrow> bool" where
  "startsWith s p = (take (length p) s = p)"

text \<open>
  \<open>dateStr.split('-')[1]\<close> used as a property key: \<open>undefined\<close> names the property
  \<open>"undefined"\<close>.
\<close>

definition month_key :: "string \<Rightarrow> string" where
  "month_key dateStr =
     (case split_on CHR ''-'' dateStr of _ # m # _ \<Rightarrow> m | _ \<Rightarrow> ''undefined'')"

section \<open>Data model\<close>

type_synonym coord = "rat \<times> rat"

type_synonym point = "rat \<times> rat"

text \<open>
  A country feature of the topology file; \<open>'g\<close> is its geometry, which only the external
  geometry library reads. An absent property is \<open>None\<close>.
\<close>

record 'g feature =
  iso_a3 :: "string option"
  adm0_a3 :: "string option"
  feature_id :: "string option"
  feature_name :: "string option"
  geometry :: 'g

definition truthy :: "string option \<Rightarrow> bool" where
  "truthy s = (s \<noteq> None \<and> s \<noteq> Some [])"

definition getCountryId :: "'g feature \<Rightarrow> string" where
  "getCountryId f =
     (if truthy (iso_a3 f) then the (iso_a3 f)
      else if truthy (adm0_a3 f) then the (adm0_a3 f)
      else if truthy (feature_id f) then the (feature_id f)
      else if truthy (feature_name f) then the (feature_name f)
      else ''unknown'')"

text \<open>
  The external library: the projection (\<open>None\<close> where it is undefined), the
  point-in-polygon test \<open>d3.geoContains\<close> and the date parser (\<open>None\<close> for \<open>null\<close>,
  its result on a string that does not match the format).
\<close>

record ('g, 'd) d3 =
  projection :: "coord \<Rightarrow> point option"
  geoContains :: "'g feature \<Rightarrow> coord \<Rightarrow> bool"
  dateParser :: "string \<Rightarrow> 'd option"

text \<open>One element of a Trend Series: \<open>{date, val, rawDate}\<close>.\<close>

record 'd entry =
  date :: "'d option"
  val :: jsnum
  rawDate :: string

datatype color_scale = absoluteColorScale | anomalyColorScale

record circle =
  cx :: rat
  cy :: rat
  fill :: "color_scale \<times> jsval"

text \<open>
  The sync marker of a chart: absent while the chart has no marker group, hidden as
  \<open>drawDetailedChart\<close> creates it, or shown at a series element. Units and colours of
  the charts, which follow the mode, are not modelled.
\<close>

datatype 'd marker = Hidden | Shown "'d entry"

text \<open>
  A sidebar list item. The item template lives in the page, which is not part of the
  sources: an item is taken to be what \<open>addToSelectionList\<close> dereferences, a list item of
  class \<open>selection-list__item\<close> holding a stats box and a chart container.
  \<open>chartMeta\<close> is the \<open>data\<close> of \<open>container.chartMeta\<close> (its two scales are functions
  of the data); \<open>statsData\<close> is the series the displayed statistics were computed from;
  \<open>statsDisplay\<close> is the inline \<open>style.display\<close> of the stats box.
\<close>

record ('g, 'd) sidebar_item =
  itemKey :: nat
  countryId :: string
  featureData :: "'g feature option"
  statsDisplay :: string
  statsData :: "'d entry list option"
  chartMeta :: "'d entry list option"
  marker :: "'d marker option"

record border_style =
  stroke :: string
  stroke_width :: string

text \<open>
  The module state, with the part of the page and of the browser the handlers write.
  \<open>activeTimers\<close> is the timer table (the intervals set and not yet cleared) and
  \<open>nextTimerId\<close> the identifier \<open>setInterval\<close> returns next; \<open>pendingFrames\<close> counts
  the animation frames asked for, and \<open>pendingDraws\<close> lists the timeouts of
  \<open>addToSelectionList\<close>, each with the key of its item and its feature;
  \<open>controlsReady\<close> says that \<open>setupControls\<close> has attached the listeners and
  \<open>loadCalled\<close> that \<open>loadTemperatureData\<close> has run; \<open>timeDisplay\<close> is the text of
  the time display, \<open>heatmapCircles\<close> the circles of the heatmap, \<open>legendAnomaly\<close> the
  mode the legend was drawn in, \<open>sidebar\<close> the items of the selection list and
  \<open>borders\<close> the border paths with their styles.
\<close>

record ('g, 'd) app_state =
  revealedCountries :: "string set"
  allTemperatureData :: "temps_obj option"
  screenCoords :: "point option list"
  rawCoords :: "coord list option"
  timePoints :: "string list"
  baselineData :: "string \<Rightarrow> jsval list option"
  isPlaying :: bool
  animationInterval :: "nat option"
  isAnomalyMode :: bool
  currentColorScale :: color_scale
  activeTimers :: "nat set"
  nextTimerId :: nat
  timeDisplay :: string
  sliderValue :: nat
  sliderMax :: int
  pendingFrames :: nat
  controlsReady :: bool
  loadCalled :: bool
  heatmapCircles :: "circle list"
  legendAnomaly :: bool
  sidebar :: "('g, 'd) sidebar_item list"
  nextItemKey :: nat
  pendingDraws :: "(nat \<times> 'g feature) list"
  borders :: "('g feature \<times> border_style) list"

section \<open>Trend aggregation\<close>

definition indicesInCountry :: "('g, 'd) d3 \<Rightarrow> 'g feature \<Rightarrow> coord list \<Rightarrow> nat list" where
  "indicesInCountry env f cs = filter (\<lambda>i. geoContains env f (cs ! i)) [0..<length cs]"

text \<open>
  The \<open>forEach\<close> over the contained indices: \<open>temps[idx]\<close> throws when \<open>temps\<close> is not
  an array; the baseline is subtracted when anomaly mode is on and a baseline array is
  there.
\<close>

fun sumLoop ::
  "jsval list option \<Rightarrow> jsval list option \<Rightarrow> nat list \<Rightarrow> jsnum \<times> nat \<Rightarrow> jserror + jsnum \<times> nat" where
  "sumLoop temps baselineTemps [] acc = Inr acc"
| "sumLoop temps baselineTemps (idx # rest) (s, count) =
     (case temps of
        None \<Rightarrow> Inl TypeError
      | Some t \<Rightarrow>
          (let v = (case baselineTemps of
                      Some b \<Rightarrow> Number (js_sub (arr_get t idx) (arr_get b idx))
                    | None \<Rightarrow> arr_get t idx)
           in sumLoop temps baselineTemps rest (js_add s v, Suc count)))"

text \<open>The callback of \<open>timePoints.map\<close>.\<close>

definition trendPoint ::
  "('g, 'd) d3 \<Rightarrow> ('g, 'd) app_state \<Rightarrow> nat list \<Rightarrow> string \<Rightarrow> jserror + 'd entry" where
  "trendPoint env st idxs dateStr =
     (case allTemperatureData st of
        None \<Rightarrow> Inl TypeError
      | Some obj \<Rightarrow>
          (let temps = object_get obj dateStr;
               baselineTemps =
                 (if isAnomalyMode st then baselineData st (month_key dateStr) else None)
           in case sumLoop temps baselineTemps idxs (Fin 0, 0) of
                Inl e \<Rightarrow> Inl e
              | Inr (s, count) \<Rightarrow>
                  Inr \<lparr>date = dateParser env dateStr,
                       val = (if count > 0 then num_div s count else Fin 0),
                       rawDate = dateStr\<rparr>))"

fun map_result :: "('a \<Rightarrow> jserror + 'b) \<Rightarrow> 'a list \<Rightarrow> jserror + 'b list" where
  "map_result f [] = Inr []"
| "map_result f (x # xs) =
     (case f x of
        Inl e \<Rightarrow> Inl e
      | Inr y \<Rightarrow> (case map_result f xs of Inl e \<Rightarrow> Inl e | Inr ys \<Rightarrow> Inr (y # ys)))"

text \<open>\<open>null\<close> is \<open>Inr None\<close>, a series \<open>Inr (Some series)\<close>, a throw \<open>Inl\<close>.\<close>

definition calculateCountryTrend ::
  "('g, 'd) d3 \<Rightarrow> ('g, 'd) app_state \<Rightarrow> 'g feature \<Rightarrow> jserror + 'd entry list option" where
  "calculateCountryTrend env st f =
     (case rawCoords st of
        None \<Rightarrow> Inr None
      | Some cs \<Rightarrow>
          if cs = [] then Inr None
          else (let idxs = indicesInCountry env f cs
                in if idxs = [] then Inr None
                   else (case map_result (trendPoint env st idxs) (timePoints st) of
                           Inl e \<Rightarrow> Inl e
                         | Inr series \<Rightarrow> Inr (Some series))))"

section \<open>Rendering\<close>

text \<open>The value of one heatmap point, the body of the assembly loop.\<close>

definition renderValue :: "bool \<Rightarrow> jsval list option \<Rightarrow> jsval list \<Rightarrow> nat \<Rightarrow> jsval" where
  "renderValue anomaly baselineTemps currentTemps i =
     (let v = arr_get currentTemps i
      in if anomaly then
           (case baselineTemps of
              Some b \<Rightarrow>
                (let baseVal = arr_get b i
                 in if baseVal \<noteq> Undefined \<and> baseVal \<noteq> Null then Number (js_sub v baseVal)
                    else Number (Fin 0))
            | None \<Rightarrow> v)
         else v)"

text \<open>
  The assembly loop over the screen coordinates, each with its index: a \<open>null\<close>
  coordinate is skipped, \<open>currentTemps[i]\<close> throws when \<open>currentTemps\<close> is not an array.
\<close>

fun assembleData ::
  "bool \<Rightarrow> jsval list option \<Rightarrow> jsval list option \<Rightarrow> (nat \<times> point option) list
     \<Rightarrow> jserror + (point \<times> jsval) list" where
  "assembleData anomaly baselineTemps currentTemps [] = Inr []"
| "assembleData anomaly baselineTemps currentTemps ((i, coord) # rest) =
     (case coord of
        None \<Rightarrow> assembleData anomaly baselineTemps currentTemps rest
      | Some p \<Rightarrow>
          (case currentTemps of
             None \<Rightarrow> Inl TypeError
           | Some t \<Rightarrow>
               (case assembleData anomaly baselineTemps currentTemps rest of
                  Inl e \<Rightarrow> Inl e
                | Inr ds \<Rightarrow> Inr ((p, renderValue anomaly baselineTemps t i) # ds))))"

definition syncItem :: "nat \<Rightarrow> ('g, 'd) sidebar_item \<Rightarrow> ('g, 'd) sidebar_item" where
  "syncItem timeIndex it =
     (case chartMeta it of
        None \<Rightarrow> it
      | Some ds \<Rightarrow>
          if timeIndex < length ds then
            (case marker it of None \<Rightarrow> it | Some m \<Rightarrow> it\<lparr>marker := Some (Shown (ds ! timeIndex))\<rparr>)
          else it)"

definition updateChartsSync :: "('g, 'd) app_state \<Rightarrow> nat \<Rightarrow> ('g, 'd) app_state" where
  "updateChartsSync st timeIndex = st\<lparr>sidebar := map (syncItem timeIndex) (sidebar st)\<rparr>"

text \<open>
  \<open>renderHeatmap\<close>. An index past the end of \<open>timePoints\<close> reads \<open>undefined\<close>: the
  display is then emptied, the property \<open>"undefined"\<close> is looked up, and \<open>split\<close> on it
  throws in anomaly mode.
\<close>

definition renderHeatmap :: "('g, 'd) app_state \<Rightarrow> nat \<Rightarrow> ('g, 'd) app_state outcome" where
  "renderHeatmap st timeIndex =
     (if timePoints st = [] then Done st
      else
        (let currentTime =
               (if timeIndex < length (timePoints st) then Some (timePoints st ! timeIndex)
                else None);
             st1 = st\<lparr>timeDisplay := (case currentTime of Some s \<Rightarrow> s | None \<Rightarrow> [])\<rparr>
         in case allTemperatureData st of
              None \<Rightarrow> Thrown TypeError st1
            | Some obj \<Rightarrow>
                (let currentTemps =
                       object_get obj (case currentTime of Some s \<Rightarrow> s | None \<Rightarrow> ''undefined'')
                 in if isAnomalyMode st \<and> currentTime = None then Thrown TypeError st1
                    else
                      (let baselineTemps =
                             (case currentTime of
                                Some s \<Rightarrow>
                                  if isAnomalyMode st then baselineData st (month_key s) else None
                              | None \<Rightarrow> None)
                       in case assembleData (isAnomalyMode st) baselineTemps currentTemps
                                 (enumerate 0 (screenCoords st)) of
                            Inl e \<Rightarrow> Thrown e st1
                          | Inr renderData \<Rightarrow>
                              Done (updateChartsSync
                                (st1\<lparr>heatmapCircles :=
                                   map (\<lambda>(p, v). \<lparr>cx = fst p, cy = snd p,
                                                  fill = (currentColorScale st, v)\<rparr>) renderData\<rparr>)
                                timeIndex)))))"

section \<open>Data loading\<close>

text \<open>
  The payload after \<open>JSON.parse\<close>; fetching, unzipping and parsing are outside the model.
  An object is truthy, so \<open>temperatures || data\<close> is \<open>temperatures\<close> whenever it is there.
\<close>

record parsed_data =
  coords :: "coord list option"
  temperatures :: "temps_obj option"
  data :: "temps_obj option"

definition baselineStep ::
  "temps_obj \<Rightarrow> (string \<Rightarrow> jsval list option) \<Rightarrow> string \<Rightarrow> (string \<Rightarrow> jsval list option)" where
  "baselineStep obj b dateStr =
     (if startsWith dateStr ''2015'' then
        (let parts = split_on CHR ''-'' dateStr
         in if length parts > 1 then b(parts ! 1 := object_get obj dateStr) else b)
      else b)"

definition setupControls :: "('g, 'd) app_state \<Rightarrow> ('g, 'd) app_state" where
  "setupControls st =
     st\<lparr>sliderMax := int (length (timePoints st)) - 1, sliderValue := 0, controlsReady := True\<rparr>"

text \<open>\<open>parsedData.temperatures || parsedData.data\<close>.\<close>

definition payloadTemperatures :: "parsed_data \<Rightarrow> temps_obj option" where
  "payloadTemperatures pd = (case temperatures pd of Some t \<Rightarrow> Some t | None \<Rightarrow> data pd)"

text \<open>
  The \<open>try\<close> block of \<open>loadTemperatureData\<close> from the parsed payload on:
  \<open>rawCoords.map\<close> throws when the payload has no \<open>coords\<close>, \<open>Object.keys\<close> when it
  has no temperatures; the assignments made before a throw are kept. \<open>sort()\<close> orders
  the keys by their code units, which is the lexicographic order of character lists.
\<close>

definition loadBody ::
  "('g, 'd) d3 \<Rightarrow> parsed_data \<Rightarrow> ('g, 'd) app_state \<Rightarrow> ('g, 'd) app_state outcome" where
  "loadBody env pd st0 =
     (let st = st0\<lparr>loadCalled := True, timeDisplay := ''Processing...''\<rparr>
      in case coords pd of
           None \<Rightarrow> Thrown TypeError (st\<lparr>rawCoords := None\<rparr>)
         | Some cs \<Rightarrow>
             (let st1 = st\<lparr>rawCoords := Some cs, screenCoords := map (projection env) cs\<rparr>
              in case payloadTemperatures pd of
                   None \<Rightarrow> Thrown TypeError (st1\<lparr>allTemperatureData := None\<rparr>)
                 | Some obj \<Rightarrow>
                     (let tps = sort (object_keys obj);
                          st2 = st1\<lparr>allTemperatureData := Some obj, timePoints := tps,
                                   baselineData := foldl (baselineStep obj) (baselineData st1) tps\<rparr>
                      in renderHeatmap (setupControls st2) 0)))"

text \<open>The \<open>catch\<close>: the failure is reported in the time display.\<close>

definition loadTemperatureData ::
  "('g, 'd) d3 \<Rightarrow> parsed_data \<Rightarrow> ('g, 'd) app_state \<Rightarrow> ('g, 'd) app_state" where
  "loadTemperatureData env pd st0 =
     (case loadBody env pd st0 of
        Done s \<Rightarrow> s
      | Thrown e s \<Rightarrow> s\<lparr>timeDisplay := ''Data Load Failed''\<rparr>)"

section \<open>Playback\<close>

text \<open>
  \<open>setInterval\<close> enters a fresh timer into the timer table of the browser and
  \<open>clearInterval\<close> removes the one named (\<open>null\<close> names none). The label of the
  button is not modelled.
\<close>

definition togglePlay :: "('g, 'd) app_state \<Rightarrow> ('g, 'd) app_state" where
  "togglePlay st =
     (if isPlaying st then
        st\<lparr>activeTimers :=
             activeTimers st - (case animationInterval st of None \<Rightarrow> {} | Some t \<Rightarrow> {t}),
           isPlaying := False\<rparr>
      else
        st\<lparr>isPlaying := True,
           animationInterval := Some (nextTimerId st),
           activeTimers := insert (nextTimerId st) (activeTimers st),
           nextTimerId := Suc (nextTimerId st)\<rparr>)"

text \<open>The callback of the playback interval.\<close>

definition playbackTick :: "('g, 'd) app_state \<Rightarrow> ('g, 'd) app_state" where
  "playbackTick st =
     (let nextVal = (if int (sliderValue st + 1) > sliderMax st then 0 else sliderValue st + 1)
      in final (renderHeatmap (st\<lparr>sliderValue := nextVal\<rparr>) nextVal))"

text \<open>
  The \<open>input\<close> listener of the slider, run after the browser has stored the dragged
  value: it pauses and asks for an animation frame, whose callback renders the slider's
  value of that moment.
\<close>

definition sliderInput :: "nat \<Rightarrow> ('g, 'd) app_state \<Rightarrow> ('g, 'd) app_state" where
  "sliderInput v st0 =
     (let st = st0\<lparr>sliderValue := v\<rparr>;
          st1 = (if isPlaying st then togglePlay st else st)
      in st1\<lparr>pendingFrames := Suc (pendingFrames st1)\<rparr>)"

definition animationFrame :: "('g, 'd) app_state \<Rightarrow> ('g, 'd) app_state" where
  "animationFrame st =
     final (renderHeatmap (st\<lparr>pendingFrames := pendingFrames st - 1\<rparr>) (sliderValue st))"

section \<open>Sidebar charts and mode switching\<close>

text \<open>
  \<open>updateCountryStats\<close>: \<open>d.date.getMonth()\<close> throws on a \<open>null\<close> date, and
  \<open>avg.toFixed\<close> throws when no value of the series is a number, both before any text
  of the box is written.
\<close>

definition updateCountryStats ::
  "('g, 'd) sidebar_item \<Rightarrow> 'd entry list option \<Rightarrow> ('g, 'd) sidebar_item outcome" where
  "updateCountryStats it trendData =
     (case trendData of
        None \<Rightarrow> Done (it\<lparr>statsDisplay := ''none''\<rparr>)
      | Some ds \<Rightarrow>
          if ds = [] then Done (it\<lparr>statsDisplay := ''none''\<rparr>)
          else if list_ex (\<lambda>d. date d = None) ds \<or> list_all (\<lambda>d. val d = NaN) ds
          then Thrown TypeError (it\<lparr>statsDisplay := ''flex''\<rparr>)
          else Done (it\<lparr>statsDisplay := ''flex'', statsData := Some ds\<rparr>))"

text \<open>\<open>drawDetailedChart\<close>: \<open>d3.extent\<close> throws on \<open>null\<close> data.\<close>

definition drawDetailedChart ::
  "('g, 'd) sidebar_item \<Rightarrow> 'd entry list option \<Rightarrow> ('g, 'd) sidebar_item outcome" where
  "drawDetailedChart it trendData =
     (case trendData of
        None \<Rightarrow> Thrown TypeError it
      | Some ds \<Rightarrow> Done (it\<lparr>chartMeta := Some ds, marker := Some Hidden\<rparr>))"

text \<open>The body of the \<open>forEach\<close> of \<open>toggleAnomalyMode\<close>.\<close>

definition refreshItem ::
  "('g, 'd) d3 \<Rightarrow> ('g, 'd) app_state \<Rightarrow> ('g, 'd) sidebar_item \<Rightarrow> ('g, 'd) sidebar_item outcome" where
  "refreshItem env st it =
     (case featureData it of
        None \<Rightarrow> Done it
      | Some f \<Rightarrow>
          (let it1 = it\<lparr>marker := None\<rparr>
           in case calculateCountryTrend env st f of
                Inl e \<Rightarrow> Thrown e it1
              | Inr trendData \<Rightarrow>
                  (case updateCountryStats it1 trendData of
                     Thrown e it2 \<Rightarrow> Thrown e it2
                   | Done it2 \<Rightarrow> drawDetailedChart it2 trendData)))"

text \<open>\<open>forEach\<close> with a callback that may throw: the elements after the throw are untouched.\<close>

fun forEach_outcome :: "('a \<Rightarrow> 'a outcome) \<Rightarrow> 'a list \<Rightarrow> 'a list outcome" where
  "forEach_outcome f [] = Done []"
| "forEach_outcome f (x # xs) =
     (case f x of
        Thrown e y \<Rightarrow> Thrown e (y # xs)
      | Done y \<Rightarrow>
          (case forEach_outcome f xs of
             Done ys \<Rightarrow> Done (y # ys)
           | Thrown e ys \<Rightarrow> Thrown e (y # ys)))"

definition toggleAnomalyMode ::
  "('g, 'd) d3 \<Rightarrow> bool \<Rightarrow> ('g, 'd) app_state \<Rightarrow> ('g, 'd) app_state outcome" where
  "toggleAnomalyMode env enabled st =
     (let st1 = st\<lparr>isAnomalyMode := enabled,
                   currentColorScale := (if enabled then anomalyColorScale else absoluteColorScale),
                   legendAnomaly := enabled\<rparr>
      in case forEach_outcome (refreshItem env st1) (sidebar st1) of
           Thrown e items \<Rightarrow> Thrown e (st1\<lparr>sidebar := items\<rparr>)
         | Done items \<Rightarrow> renderHeatmap (st1\<lparr>sidebar := items\<rparr>) (sliderValue st1))"

section \<open>Country selection\<close>

text \<open>The stroke and the width \<open>updateBorderStyle\<close> sets.\<close>

definition borderStyleFor :: "bool \<Rightarrow> border_style" where
  "borderStyleFor isRevealed =
     \<lparr>stroke = (if isRevealed then ''#3b82f6'' else ''#94a3b8''),
      stroke_width = (if isRevealed then ''1.2px'' else ''0.5px'')\<rparr>"

definition updateBorderStyle ::
  "string \<Rightarrow> bool \<Rightarrow> ('g, 'd) app_state \<Rightarrow> ('g, 'd) app_state" where
  "updateBorderStyle cid isRevealed st =
     st\<lparr>borders :=
          map (\<lambda>(f, style).
                 if getCountryId f = cid then (f, borderStyleFor isRevealed) else (f, style))
              (borders st)\<rparr>"

text \<open>
  \<open>querySelector\<close> finds the first item of the country, which is removed. The attribute
  selector built from the identifier is taken to be well formed: the identifiers of the
  topology file are codes and names without a double quote or a backslash.
\<close>

fun removeFirst :: "('a \<Rightarrow> bool) \<Rightarrow> 'a list \<Rightarrow> 'a list" where
  "removeFirst P [] = []"
| "removeFirst P (x # xs) = (if P x then xs else x # removeFirst P xs)"

definition removeFromSelectionList ::
  "string \<Rightarrow> ('g, 'd) app_state \<Rightarrow> ('g, 'd) app_state" where
  "removeFromSelectionList cid st =
     st\<lparr>sidebar := removeFirst (\<lambda>it. countryId it = cid) (sidebar st)\<rparr>"

definition newItem :: "nat \<Rightarrow> string \<Rightarrow> 'g feature \<Rightarrow> ('g, 'd) sidebar_item" where
  "newItem k cid f =
     \<lparr>itemKey = k, countryId = cid, featureData = Some f, statsDisplay = [],
      statsData = None, chartMeta = None, marker = None\<rparr>"

text \<open>\<open>addToSelectionList\<close> appends the item and defers its drawing by a timeout.\<close>

definition addToSelectionList ::
  "string \<Rightarrow> 'g feature \<Rightarrow> ('g, 'd) app_state \<Rightarrow> ('g, 'd) app_state" where
  "addToSelectionList cid f st =
     st\<lparr>sidebar := sidebar st @ [newItem (nextItemKey st) cid f],
        pendingDraws := pendingDraws st @ [(nextItemKey st, f)],
        nextItemKey := Suc (nextItemKey st)\<rparr>"

text \<open>
  \<open>handleClick\<close> and \<open>removeCountry\<close>; the classes they set on the country paths
  are not modelled.
\<close>

definition handleClick :: "'g feature \<Rightarrow> ('g, 'd) app_state \<Rightarrow> ('g, 'd) app_state" where
  "handleClick f st =
     (let cid = getCountryId f;
          st1 = (if cid \<in> revealedCountries st then
                   removeFromSelectionList cid
                     (st\<lparr>revealedCountries := revealedCountries st - {cid}\<rparr>)
                 else
                   addToSelectionList cid f
                     (st\<lparr>revealedCountries := insert cid (revealedCountries st)\<rparr>))
      in updateBorderStyle cid (cid \<in> revealedCountries st1) st1)"

definition removeCountry :: "string \<Rightarrow> ('g, 'd) app_state \<Rightarrow> ('g, 'd) app_state" where
  "removeCountry cid st =
     removeFromSelectionList cid
       (updateBorderStyle cid False (st\<lparr>revealedCountries := revealedCountries st - {cid}\<rparr>))"

text \<open>
  The deferred drawing of an item, the callback of the timeout: it works on the
  elements it captured, attached to the list or not.
\<close>

definition drawItem ::
  "('g, 'd) d3 \<Rightarrow> ('g, 'd) app_state \<Rightarrow> 'g feature \<Rightarrow> ('g, 'd) sidebar_item
     \<Rightarrow> ('g, 'd) sidebar_item outcome" where
  "drawItem env st f it =
     (case calculateCountryTrend env st f of
        Inl e \<Rightarrow> Thrown e it
      | Inr trendData \<Rightarrow>
          (let it1 = it\<lparr>marker := None\<rparr>
           in if trendData \<noteq> None \<and> trendData \<noteq> Some [] then
                (case updateCountryStats it1 trendData of
                   Thrown e it2 \<Rightarrow> Thrown e it2
                 | Done it2 \<Rightarrow> drawDetailedChart it2 trendData)
              else Done (it1\<lparr>statsDisplay := ''none''\<rparr>)))"

definition deferredDraw :: "('g, 'd) d3 \<Rightarrow> ('g, 'd) app_state \<Rightarrow> ('g, 'd) app_state" where
  "deferredDraw env st =
     (case pendingDraws st of
        [] \<Rightarrow> st
      | (k, f) # rest \<Rightarrow>
          (let st1 = st\<lparr>pendingDraws := rest\<rparr>;
               it0 = (case find (\<lambda>it. itemKey it = k) (sidebar st1) of
                        Some it \<Rightarrow> it
                      | None \<Rightarrow> newItem k (getCountryId f) f);
               res = drawItem env st1 f it0;
               st2 = st1\<lparr>sidebar :=
                          map (\<lambda>it. if itemKey it = k then final res else it) (sidebar st1)\<rparr>;
               trendData = calculateCountryTrend env st1 f
           in if completed res \<and> trendData \<noteq> Inr None \<and> trendData \<noteq> Inr (Some [])
              then updateChartsSync st2 (sliderValue st2)
              else st2))"

section \<open>The page as a state machine\<close>

text \<open>
  The state once the layers, the countries and the legend are set up: every border path
  has the style \<open>renderCountries\<close> gives it. The slider is not read before
  \<open>setupControls\<close> has set it.
\<close>

definition initial_state :: "'g feature list \<Rightarrow> ('g, 'd) app_state" where
  "initial_state feats =
     \<lparr>revealedCountries = {}, allTemperatureData = None, screenCoords = [],
      rawCoords = Some [], timePoints = [], baselineData = (\<lambda>k. None),
      isPlaying = False, animationInterval = None, isAnomalyMode = False,
      currentColorScale = absoluteColorScale, activeTimers = {}, nextTimerId = 0,
      timeDisplay = [], sliderValue = 0, sliderMax = 0, pendingFrames = 0,
      controlsReady = False, loadCalled = False, heatmapCircles = [],
      legendAnomaly = False, sidebar = [], nextItemKey = 0, pendingDraws = [],
      borders = map (\<lambda>f. (f, \<lparr>stroke = ''#94a3b8'', stroke_width = ''0.5px''\<rparr>)) feats\<rparr>"

datatype 'g event =
    DataLoaded parsed_data
  | CountryClick "'g feature"
  | RemoveClick string
  | PlayClick
  | SliderInput nat
  | AnimationFrame
  | AnomalyChange bool
  | TimerTick nat
  | DeferredDraw

text \<open>
  When an event can happen: the data is loaded once; a country path is clicked; the
  controls have listeners once \<open>setupControls\<close> has run, and the slider gives a value of
  its range; a frame, a timer or a timeout fires when it is pending. A handler that
  throws ends there, and the page goes on from the state at the throw.
\<close>

fun enabled :: "'g event \<Rightarrow> ('g, 'd) app_state \<Rightarrow> bool" where
  "enabled (DataLoaded pd) st = (\<not> loadCalled st)"
| "enabled (CountryClick f) st = (f \<in> fst ` set (borders st))"
| "enabled (RemoveClick cid) st = True"
| "enabled PlayClick st = controlsReady st"
| "enabled (SliderInput v) st = (controlsReady st \<and> int v \<le> max 0 (sliderMax st))"
| "enabled AnimationFrame st = (pendingFrames st > 0)"
| "enabled (AnomalyChange b) st = controlsReady st"
| "enabled (TimerTick t) st = (t \<in> activeTimers st)"
| "enabled DeferredDraw st = (pendingDraws st \<noteq> [])"

fun handle :: "('g, 'd) d3 \<Rightarrow> 'g event \<Rightarrow> ('g, 'd) app_state \<Rightarrow> ('g, 'd) app_state" where
  "handle env (DataLoaded pd) st = loadTemperatureData env pd st"
| "handle env (CountryClick f) st = handleClick f st"
| "handle env (RemoveClick cid) st = removeCountry cid st"
| "handle env PlayClick st = togglePlay st"
| "handle env (SliderInput v) st = sliderInput v st"
| "handle env AnimationFrame st = animationFrame st"
| "handle env (AnomalyChange b) st = final (toggleAnomalyMode env b st)"
| "handle env (TimerTick t) st = playbackTick st"
| "handle env DeferredDraw st = deferredDraw env st"

inductive reachable :: "('g, 'd) d3 \<Rightarrow> 'g feature list \<Rightarrow> ('g, 'd) app_state \<Rightarrow> bool"
  for env :: "('g, 'd) d3" and feats :: "'g feature list" where
  start: "reachable env feats (initial_state feats)"
| step: "reachable env feats st \<Longrightarrow> enabled e st \<Longrightarrow> reachable env feats (handle env e st)"

subsection \<open>Invariants of the reachable states\<close>

text \<open>Every border path has the style of the state of its country.\<close>

definition border_invariant :: "('g, 'd) app_state \<Rightarrow> bool" where
  "border_invariant st =
     (\<forall>(f, style)\<in>set (borders st).
        style = borderStyleFor (getCountryId f \<in> revealedCountries st))"

text \<open>
  While playing, the timer table holds the playback interval and nothing else; while
  paused it is empty. Once the controls are set up, the slider ranges over the time
  points and its value is within its range.
\<close>

definition playback_invariant :: "('g, 'd) app_state \<Rightarrow> bool" where
  "playback_invariant st =
     ((isPlaying st \<longrightarrow> (\<exists>t. animationInterval st = Some t \<and> activeTimers st = {t}))
      \<and> (\<not> isPlaying st \<longrightarrow> activeTimers st = {})
      \<and> (isPlaying st \<longrightarrow> controlsReady st)
      \<and> (controlsReady st \<longrightarrow>
            loadCalled st \<and> sliderMax st = int (length (timePoints st)) - 1
            \<and> int (sliderValue st) \<le> max 0 (sliderMax st)))"

subsection \<open>Notions for the sidebar\<close>

text \<open>
  A trend that \<open>toggleAnomalyMode\<close> can draw: it is not \<open>null\<close>, and if it has entries
  the statistics can be written (every date parsed, some value a number).
\<close>

definition chartable :: "'d entry list option \<Rightarrow> bool" where
  "chartable trendData =
     (case trendData of
        None \<Rightarrow> False
      | Some ds \<Rightarrow> ds = [] \<or> \<not> (list_ex (\<lambda>d. date d = None) ds \<or> list_all (\<lambda>d. val d = NaN) ds))"

text \<open>Two items with the same feature, chart data and statistics data.\<close>

definition same_chart :: "('g, 'd) sidebar_item \<Rightarrow> ('g, 'd) sidebar_item \<Rightarrow> bool" where
  "same_chart x y =
     (featureData y = featureData x \<and> chartMeta y = chartMeta x \<and> statsData y = statsData x)"

text \<open>
  An item after the round trip of the mode, against the item before: the same feature,
  and the chart data either kept or the absolute series of the country.
\<close>

definition absolute_or_kept ::
  "('g, 'd) d3 \<Rightarrow> ('g, 'd) app_state \<Rightarrow> ('g, 'd) sidebar_item \<Rightarrow> ('g, 'd) sidebar_item \<Rightarrow> bool" where
  "absolute_or_kept env st x z =
     (featureData z = featureData x \<and>
      (chartMeta z = chartMeta x \<or>
       (\<exists>f ds. featureData x = Some f \<and> calculateCountryTrend env st f = Inr (Some ds)
           \<and> chartMeta z = Some ds)))"

section \<open>Arithmetic mean and example data\<close>



text \<open>
  A stand-in for the external library in the examples: the identity projection, a
  geometry that is a box given by two corners, and a parser that accepts the keys of
  the full length of the format \<open>%Y-%m-%d %H:%M:%S\<close>, a date being its string.
\<close>

type_synonym box = "coord \<times> coord"

definition box_d3 :: "(box, string) d3" where
  "box_d3 =
     \<lparr>projection = (\<lambda>c. Some c),
      geoContains = (\<lambda>f c. fst (fst (geometry f)) \<le> fst c \<and> fst c \<le> fst (snd (geometry f))
                          \<and> snd (fst (geometry f)) \<le> snd c \<and> snd c \<le> snd (snd (geometry f))),
      dateParser = (\<lambda>s. if length s = 19 then Some s else None)\<rparr>"

definition box_country :: "string \<Rightarrow> box \<Rightarrow> box feature" where
  "box_country n b =
     \<lparr>iso_a3 = None, adm0_a3 = None, feature_id = None, feature_name = Some n, geometry = b\<rparr>"

text \<open>The example dataset of the specification.\<close>

definition example_payload :: parsed_data where
  "example_payload =
     \<lparr>coords = Some [(0, 0), (10, 10)],
      temperatures = Some [(''2015-01-01'', Some [Number (Fin 280), Number (Fin 290)]),
                           (''2016-01-01'', Some [Number (Fin 282), Number (Fin 285)])],
      data = None\<rparr>"

text \<open>
  Three more payloads: two records in one month of the baseline year, no record of the
  baseline year, and a baseline array shorter than the coordinate list. And a library
  whose projection is undefined at longitude \<open>10\<close>.
\<close>

definition two_january_payload :: parsed_data where
  "two_january_payload =
     \<lparr>coords = Some [(0, 0)],
      temperatures = Some [(''2015-01-01'', Some [Number (Fin 280)]),
                           (''2015-01-15'', Some [Number (Fin 285)])],
      data = None\<rparr>"

definition no_baseline_payload :: parsed_data where
  "no_baseline_payload =
     \<lparr>coords = Some [(0, 0)],
      temperatures = Some [(''2016-03-01'', Some [Number (Fin 282)])],
      data = None\<rparr>"

definition short_baseline_payload :: parsed_data where
  "short_baseline_payload =
     \<lparr>coords = Some [(0, 0), (10, 10)],
      temperatures = Some [(''2015-01-01'', Some [Number (Fin 280)]),
                           (''2016-01-01'', Some [Number (Fin 282), Number (Fin 285)])],
      data = None\<rparr>"


text \<open>
  The example dataset with keys in the full format of the date parser; a sidebar item
  as \<open>addToSelectionList\<close> leaves it once drawn in absolute mode; and the state after
  loading that dataset and revealing a country without a sample point and then a country
  that contains the first point, each drawn by its timeout.
\<close>

definition timed_payload :: parsed_data where
  "timed_payload =
     \<lparr>coords = Some [(0, 0), (10, 10)],
      temperatures =
        Some [(''2015-01-01 00:00:00'', Some [Number (Fin 280), Number (Fin 290)]),
              (''2016-01-01 00:00:00'', Some [Number (Fin 282), Number (Fin 285)])],
      data = None\<rparr>"

definition drawn_item :: "(box, string) sidebar_item" where
  "drawn_item =
     (newItem 0 ''A'' (box_country ''A'' ((-1, -1), (1, 1))))
       \<lparr>chartMeta :=
          Some [\<lparr>date = Some ''2015-01-01 00:00:00'', val = Fin 280, rawDate = ''2015-01-01 00:00:00''\<rparr>,
                \<lparr>date = Some ''2016-01-01 00:00:00'', val = Fin 282, rawDate = ''2016-01-01 00:00:00''\<rparr>],
        marker := Some Hidden\<rparr>"

definition no_data_scenario :: "(box, string) app_state" where
  "no_data_scenario =
     handle box_d3 DeferredDraw
       (handle box_d3 (CountryClick (box_country ''A'' ((-1, -1), (1, 1))))
         (handle box_d3 DeferredDraw
           (handle box_d3 (CountryClick (box_country ''B'' ((20, 20), (30, 30))))
             (handle box_d3 (DataLoaded timed_payload)
               (initial_state [box_country ''A'' ((-1, -1), (1, 1)),
                               box_country ''B'' ((20, 20), (30, 30))])))))"

section \<open>Facts about loading and rendering\<close>

lemma renderHeatmap_frame:
  "\<exists>td hc sb. final (renderHeatmap st i) = st\<lparr>timeDisplay := td, heatmapCircles := hc, sidebar := sb\<rparr>"
proof (cases "completed (renderHeatmap st i)")
  case True
  show ?thesis
    apply (rule exI[of _ "timeDisplay (final (renderHeatmap st i))"])
    apply (rule exI[of _ "heatmapCircles (final (renderHeatmap st i))"])
    apply (rule exI[of _ "sidebar (final (renderHeatmap st i))"])
    apply (simp add: renderHeatmap_def Let_def updateChartsSync_def split: option.splits sum.splits)
    done
next
  case False
  show ?thesis
    apply (rule exI[of _ "timeDisplay (final (renderHeatmap st i))"])
    apply (rule exI[of _ "heatmapCircles (final (renderHeatmap st i))"])
    apply (rule exI[of _ "sidebar (final (renderHeatmap st i))"])
    apply (simp add: renderHeatmap_def Let_def updateChartsSync_def split: option.splits sum.splits)
    done
qed

lemma trend_cong:
  assumes "rawCoords a = rawCoords b" "timePoints a = timePoints b"
    "allTemperatureData a = allTemperatureData b" "baselineData a = baselineData b"
    "isAnomalyMode a = isAnomalyMode b"
  shows "calculateCountryTrend env a f = calculateCountryTrend env b f"
  unfolding calculateCountryTrend_def trendPoint_def assms ..

lemma loadBody_ok:
  assumes "coords pd = Some cs" "payloadTemperatures pd = Some obj"
  shows "\<exists>td hc sb. final (loadBody env pd sInit) =
      sInit\<lparr>loadCalled := True, rawCoords := Some cs, screenCoords := map (projection env) cs,
          allTemperatureData := Some obj, timePoints := sort (object_keys obj),
          baselineData := foldl (baselineStep obj) (baselineData sInit) (sort (object_keys obj)),
          sliderMax := int (length (sort (object_keys obj))) - 1, sliderValue := 0, controlsReady := True,
          timeDisplay := td, heatmapCircles := hc, sidebar := sb\<rparr>"
proof -
  let ?st2 = "setupControls (sInit\<lparr>loadCalled := True, timeDisplay := ''Processing...'',
      rawCoords := Some cs, screenCoords := map (projection env) cs,
      allTemperatureData := Some obj, timePoints := sort (object_keys obj),
      baselineData := foldl (baselineStep obj) (baselineData sInit) (sort (object_keys obj))\<rparr>)"
  have eq: "loadBody env pd sInit = renderHeatmap ?st2 0"
    using assms by (simp add: loadBody_def Let_def)
  obtain td hc sb where "final (renderHeatmap ?st2 0) = ?st2\<lparr>timeDisplay := td, heatmapCircles := hc, sidebar := sb\<rparr>"
    using renderHeatmap_frame by blast
  then show ?thesis unfolding eq by (auto simp: setupControls_def)
qed

lemma final_load:
  "\<exists>td. loadTemperatureData env pd sInit = (final (loadBody env pd sInit))\<lparr>timeDisplay := td\<rparr>"
  by (cases "loadBody env pd sInit") (auto simp: loadTemperatureData_def intro: exI[of _ "timeDisplay (final (loadBody env pd sInit))"])

lemma load_data_fields:
  assumes "coords pd = Some cs" "payloadTemperatures pd = Some obj"
  shows "rawCoords (loadTemperatureData env pd sInit) = Some cs"
    "screenCoords (loadTemperatureData env pd sInit) = map (projection env) cs"
    "allTemperatureData (loadTemperatureData env pd sInit) = Some obj"
    "timePoints (loadTemperatureData env pd sInit) = sort (object_keys obj)"
    "baselineData (loadTemperatureData env pd sInit) =
       foldl (baselineStep obj) (baselineData sInit) (sort (object_keys obj))"
    "isAnomalyMode (loadTemperatureData env pd sInit) = isAnomalyMode sInit"
    "currentColorScale (loadTemperatureData env pd sInit) = currentColorScale sInit"
proof -
  obtain td hc sb td' where
    "loadTemperatureData env pd sInit =
      sInit\<lparr>loadCalled := True, rawCoords := Some cs, screenCoords := map (projection env) cs,
          allTemperatureData := Some obj, timePoints := sort (object_keys obj),
          baselineData := foldl (baselineStep obj) (baselineData sInit) (sort (object_keys obj)),
          sliderMax := int (length (sort (object_keys obj))) - 1, sliderValue := 0, controlsReady := True,
          timeDisplay := td, heatmapCircles := hc, sidebar := sb, timeDisplay := td'\<rparr>"
    using loadBody_ok[OF assms, of env sInit] final_load[of env pd sInit] by metis
  then show "rawCoords (loadTemperatureData env pd sInit) = Some cs"
    "screenCoords (loadTemperatureData env pd sInit) = map (projection env) cs"
    "allTemperatureData (loadTemperatureData env pd sInit) = Some obj"
    "timePoints (loadTemperatureData env pd sInit) = sort (object_keys obj)"
    "baselineData (loadTemperatureData env pd sInit) =
       foldl (baselineStep obj) (baselineData sInit) (sort (object_keys obj))"
    "isAnomalyMode (loadTemperatureData env pd sInit) = isAnomalyMode sInit"
    "currentColorScale (loadTemperatureData env pd sInit) = currentColorScale sInit"
    by simp_all
qed




lemma indices_empty_iff:
  "indicesInCountry env f cs = [] \<longleftrightarrow> (\<forall>i<length cs. \<not> geoContains env f (cs ! i))"
  by (auto simp: indicesInCountry_def filter_empty_conv)


text \<open>
  Claim C10. While no temperature data is loaded, that is while \<open>timePoints\<close> is empty,
  \<open>renderHeatmap\<close> returns at once for every time index: it does not throw, although
  reading the temperature mapping would, and it leaves the whole state, the time display,
  the heatmap circles and the chart markers among it, as it was.
\<close>

theorem renderHeatmap_without_data_noop: "timePoints st = [] \<Longrightarrow> renderHeatmap st timeIndex = Done st"
  by (simp add: renderHeatmap_def)

text \<open>
  Claim C3. \<open>calculateCountryTrend\<close> returns \<open>null\<close> exactly when no coordinates are
  loaded or no loaded coordinate lies inside the country; in these cases it returns, it
  does not throw.
\<close>

theorem calculateCountryTrend_null_iff:
  "calculateCountryTrend env st f = Inr None \<longleftrightarrow>
     (rawCoords st = None \<or> rawCoords st = Some [] \<or>
      (\<exists>cs. rawCoords st = Some cs \<and> (\<forall>i<length cs. \<not> geoContains env f (cs ! i))))"
  by (auto simp: calculateCountryTrend_def Let_def indices_empty_iff split: option.splits sum.splits)


lemma example_split:
  "split_on CHR ''-'' ''2015-01-01'' = [''2015'', ''01'', ''01'']"
  "split_on CHR ''-'' ''2016-01-01'' = [''2016'', ''01'', ''01'']"
  by simp_all

lemma example_fields:
  "rawCoords (loadTemperatureData env example_payload sInit) = Some [(0, 0), (10, 10)]"
  "timePoints (loadTemperatureData env example_payload sInit) = [''2015-01-01'', ''2016-01-01'']"
  "allTemperatureData (loadTemperatureData env example_payload sInit) = temperatures example_payload"
  "baselineData (loadTemperatureData env example_payload sInit) ''01'' =
     Some [Number (Fin 280), Number (Fin 290)]"
proof -
  have c: "coords example_payload = Some [(0, 0), (10, 10)]"
    and t: "payloadTemperatures example_payload = temperatures example_payload"
    and t': "temperatures example_payload = Some [(''2015-01-01'', Some [Number (Fin 280), Number (Fin 290)]),
                           (''2016-01-01'', Some [Number (Fin 282), Number (Fin 285)])]"
    by (simp_all add: example_payload_def payloadTemperatures_def)
  note flds = load_data_fields[OF c t[unfolded t'], of env sInit]
  show "rawCoords (loadTemperatureData env example_payload sInit) = Some [(0, 0), (10, 10)]"
    by (simp add: flds)
  show "timePoints (loadTemperatureData env example_payload sInit) = [''2015-01-01'', ''2016-01-01'']"
    by (simp add: flds object_keys_def)
  show "allTemperatureData (loadTemperatureData env example_payload sInit) = temperatures example_payload"
    by (simp add: flds t')
  show "baselineData (loadTemperatureData env example_payload sInit) ''01'' =
     Some [Number (Fin 280), Number (Fin 290)]"
    by (simp add: flds object_keys_def baselineStep_def startsWith_def example_split object_get_def)
qed

lemma example_temperatures:
  "temperatures example_payload =
     Some [(''2015-01-01'', Some [Number (Fin 280), Number (Fin 290)]),
           (''2016-01-01'', Some [Number (Fin 282), Number (Fin 285)])]"
  by (simp add: example_payload_def)

lemma example_indices:
  assumes "geoContains env f (0, 0)" "\<not> geoContains env f (10, 10)"
  shows "indicesInCountry env f [(0, 0), (10, 10)] = [0]"
  using assms by (simp add: indicesInCountry_def upt_rec)

text \<open>
  Claim C4. On the example dataset, for a country that contains the first coordinate
  only, the series in absolute mode is \<open>(2015-01-01, 280), (2016-01-01, 282)\<close>; the
  baseline of month \<open>01\<close> is \<open>[280, 290]\<close>, and in anomaly mode the value of 2016 is
  \<open>282 - 280 = 2\<close>.
\<close>

theorem example_dataset_trend:
  assumes "geoContains env f (0, 0)" "\<not> geoContains env f (10, 10)"
  shows "calculateCountryTrend env
           ((loadTemperatureData env example_payload sInit)\<lparr>isAnomalyMode := False\<rparr>) f =
         Inr (Some [\<lparr>date = dateParser env ''2015-01-01'', val = Fin 280, rawDate = ''2015-01-01''\<rparr>,
                    \<lparr>date = dateParser env ''2016-01-01'', val = Fin 282, rawDate = ''2016-01-01''\<rparr>])
       \<and> baselineData (loadTemperatureData env example_payload sInit) ''01'' =
           Some [Number (Fin 280), Number (Fin 290)]
       \<and> calculateCountryTrend env
           ((loadTemperatureData env example_payload sInit)\<lparr>isAnomalyMode := True\<rparr>) f =
         Inr (Some [\<lparr>date = dateParser env ''2015-01-01'', val = Fin 0, rawDate = ''2015-01-01''\<rparr>,
                    \<lparr>date = dateParser env ''2016-01-01'', val = Fin (282 - 280), rawDate = ''2016-01-01''\<rparr>])"
  by (simp add: calculateCountryTrend_def trendPoint_def example_fields example_indices[OF assms]
      example_temperatures object_get_def month_key_def example_split arr_get_def js_sub_def js_add_def)

lemma box_contains:
  "geoContains box_d3 (box_country n ((-1, -1), (1, 1))) (0, 0)"
  "\<not> geoContains box_d3 (box_country n ((-1, -1), (1, 1))) (10, 10)"
  by (simp_all add: box_d3_def box_country_def)

theorem example_dataset_trend_witness:
  "calculateCountryTrend box_d3
           ((loadTemperatureData box_d3 example_payload (initial_state []))\<lparr>isAnomalyMode := False\<rparr>)
           (box_country ''A'' ((-1, -1), (1, 1))) =
         Inr (Some [\<lparr>date = None, val = Fin 280, rawDate = ''2015-01-01''\<rparr>,
                    \<lparr>date = None, val = Fin 282, rawDate = ''2016-01-01''\<rparr>])
   \<and> calculateCountryTrend box_d3
           ((loadTemperatureData box_d3 example_payload (initial_state []))\<lparr>isAnomalyMode := True\<rparr>)
           (box_country ''A'' ((-1, -1), (1, 1))) =
         Inr (Some [\<lparr>date = None, val = Fin 0, rawDate = ''2015-01-01''\<rparr>,
                    \<lparr>date = None, val = Fin 2, rawDate = ''2016-01-01''\<rparr>])"
  using example_dataset_trend[OF box_contains(1)[of "''A''"] box_contains(2)[of "''A''"], where sInit = "initial_state []"]
  by (simp add: box_d3_def)

theorem renderHeatmap_without_data_noop_witness:
  "allTemperatureData (initial_state [] :: (box, string) app_state) = None
   \<and> renderHeatmap (initial_state [] :: (box, string) app_state) 5 = Done (initial_state [])"
proof -
  have "timePoints (initial_state [] :: (box, string) app_state) = []"
    by (simp add: initial_state_def)
  from renderHeatmap_without_data_noop[OF this, of 5] show ?thesis by (simp add: initial_state_def)
qed

theorem calculateCountryTrend_null_iff_witness:
  "calculateCountryTrend box_d3 (loadTemperatureData box_d3 example_payload (initial_state []))
      (box_country ''B'' ((20, 20), (30, 30))) = Inr None
   \<and> calculateCountryTrend box_d3 (initial_state []) (box_country ''A'' ((-1, -1), (1, 1))) = Inr None
   \<and> calculateCountryTrend box_d3 (loadTemperatureData box_d3 example_payload (initial_state []))
      (box_country ''A'' ((-1, -1), (1, 1))) \<noteq> Inr None"
proof -
  have 1: "calculateCountryTrend box_d3 (loadTemperatureData box_d3 example_payload (initial_state []))
      (box_country ''B'' ((20, 20), (30, 30))) = Inr None"
    unfolding calculateCountryTrend_null_iff by (simp add: example_fields box_d3_def box_country_def less_Suc_eq)
  have 2: "calculateCountryTrend box_d3 (initial_state []) (box_country ''A'' ((-1, -1), (1, 1))) = Inr None"
    unfolding calculateCountryTrend_null_iff by (simp add: initial_state_def)
  have 3: "calculateCountryTrend box_d3 (loadTemperatureData box_d3 example_payload (initial_state []))
      (box_country ''A'' ((-1, -1), (1, 1))) \<noteq> Inr None"
    unfolding calculateCountryTrend_null_iff by (auto simp: example_fields box_d3_def box_country_def intro!: exI[of _ 0])
  from 1 2 3 show ?thesis by simp
qed


section \<open>Baseline and projection\<close>

lemma month_key_nth:
  "1 < length (split_on CHR ''-'' k) \<Longrightarrow> month_key k = split_on CHR ''-'' k ! 1"
  by (cases "split_on CHR ''-'' k"; cases "tl (split_on CHR ''-'' k)") (auto simp: month_key_def)

lemma foldl_baseline_untouched:
  assumes "\<forall>k\<in>set ks. \<not> (startsWith k ''2015'' \<and> 1 < length (split_on CHR ''-'' k)
              \<and> month_key k = m)"
  shows "foldl (baselineStep obj) b ks m = b m"
  using assms
proof (induction ks arbitrary: b)
  case Nil
  then show ?case by simp
next
  case (Cons k ks)
  have "baselineStep obj b k m = b m"
    using Cons.prems by (auto simp: baselineStep_def Let_def month_key_nth)
  with Cons show ?case by simp
qed

lemma foldl_baseline_last:
  assumes "startsWith k ''2015''" "1 < length (split_on CHR ''-'' k)"
    and "\<forall>k'\<in>set post. \<not> (startsWith k' ''2015'' \<and> 1 < length (split_on CHR ''-'' k')
              \<and> month_key k' = month_key k)"
  shows "foldl (baselineStep obj) b (pre @ k # post) (month_key k) = object_get obj k"
proof -
  have "foldl (baselineStep obj) b (pre @ k # post) (month_key k) =
      baselineStep obj (foldl (baselineStep obj) b pre) k (month_key k)"
    using assms(3) by (simp add: foldl_baseline_untouched)
  also have "\<dots> = object_get obj k"
    using assms(1,2) by (simp add: baselineStep_def Let_def month_key_nth)
  finally show ?thesis .
qed

lemma sorted_distinct_later:
  assumes "sorted (pre @ k # post)" "distinct (pre @ k # post)" "x \<in> set post"
  shows "k < (x :: string)"
proof -
  from assms have "k \<le> x" by (auto simp: sorted_append)
  moreover from assms have "k \<noteq> x" by auto
  ultimately show ?thesis by simp
qed

lemma baseline_of_last_key:
  assumes k: "k \<in> set (sort (object_keys obj))" "startsWith k ''2015''"
      "1 < length (split_on CHR ''-'' k)"
    and last: "\<forall>k'\<in>set (sort (object_keys obj)). k < k' \<and> startsWith k' ''2015''
        \<and> 1 < length (split_on CHR ''-'' k') \<longrightarrow> month_key k' \<noteq> month_key k"
  shows "foldl (baselineStep obj) b (sort (object_keys obj)) (month_key k) = object_get obj k"
proof -
  from k(1) obtain pre post where sp: "sort (object_keys obj) = pre @ k # post"
    by (meson split_list)
  have s: "sorted (pre @ k # post)" "distinct (pre @ k # post)"
    using sp[symmetric] by (simp_all add: object_keys_def)
  have "\<forall>k'\<in>set post. \<not> (startsWith k' ''2015'' \<and> 1 < length (split_on CHR ''-'' k')
              \<and> month_key k' = month_key k)"
  proof
    fix k' assume k': "k' \<in> set post"
    then have "k < k'" using s by (rule sorted_distinct_later[rotated 2])
    moreover have "k' \<in> set (sort (object_keys obj))" using k' sp by simp
    ultimately show "\<not> (startsWith k' ''2015'' \<and> 1 < length (split_on CHR ''-'' k')
              \<and> month_key k' = month_key k)"
      using last by blast
  qed
  then show ?thesis unfolding sp using k(2,3) by (intro foldl_baseline_last)
qed

lemma sumLoop_self_baseline:
  assumes "\<forall>j\<in>set idxs. \<exists>r. arr_get t j = Number (Fin r)"
  shows "sumLoop (Some t) (Some t) idxs (Fin s, c) = Inr (Fin s, c + length idxs)"
  using assms
proof (induction idxs arbitrary: c)
  case Nil
  then show ?case by simp
next
  case (Cons j idxs)
  then obtain r where r: "arr_get t j = Number (Fin r)" by auto
  from Cons have "sumLoop (Some t) (Some t) idxs (Fin s, Suc c) = Inr (Fin s, Suc c + length idxs)"
    by simp
  then show ?case using r by (simp add: js_add_def js_sub_def)
qed

lemma map_result_member:
  assumes "map_result f xs = Inr ys" "y \<in> set ys"
  shows "\<exists>x\<in>set xs. f x = Inr y"
  using assms
  by (induction xs arbitrary: ys) (auto split: sum.splits)

lemma trendPoint_rawDate:
  "trendPoint env st idxs k = Inr e \<Longrightarrow> rawDate e = k"
  by (auto simp: trendPoint_def Let_def split: option.splits sum.splits)

lemma series_member:
  assumes "calculateCountryTrend env st f = Inr (Some series)" "e \<in> set series"
  shows "\<exists>cs. rawCoords st = Some cs \<and>
           trendPoint env st (indicesInCountry env f cs) (rawDate e) = Inr e"
proof -
  from assms(1) obtain cs where cs: "rawCoords st = Some cs"
    and m: "map_result (trendPoint env st (indicesInCountry env f cs)) (timePoints st) = Inr series"
    by (auto simp: calculateCountryTrend_def Let_def split: option.splits if_splits sum.splits)
  from map_result_member[OF m assms(2)] obtain k where
    "trendPoint env st (indicesInCountry env f cs) k = Inr e" by blast
  with trendPoint_rawDate[OF this] cs show ?thesis by auto
qed

text \<open>
  Claim C5, as amended. In anomaly mode, take a date key of the baseline year (it starts
  with \<open>2015\<close> and has a month field) after which no baseline-year key of the same month
  is sorted, so that its own array is the stored baseline of its month, and let its
  readings at the contained indices be numbers. Then every per-point anomaly of that
  date is \<open>0\<close>, and so is its value in the series of the country.
\<close>

theorem self_baseline_last_record_of_month:
  assumes pd: "coords pd = Some cs" "payloadTemperatures pd = Some obj"
    and st: "st = (loadTemperatureData env pd sInit)\<lparr>isAnomalyMode := True\<rparr>"
    and k: "k \<in> set (timePoints st)" "startsWith k ''2015''" "1 < length (split_on CHR ''-'' k)"
    and last: "\<forall>k'\<in>set (timePoints st). k < k' \<and> startsWith k' ''2015''
        \<and> 1 < length (split_on CHR ''-'' k') \<longrightarrow> month_key k' \<noteq> month_key k"
    and t: "object_get obj k = Some t"
    and nums: "\<forall>j\<in>set (indicesInCountry env f cs). \<exists>r. arr_get t j = Number (Fin r)"
  shows "baselineData st (month_key k) = Some t
     \<and> (\<forall>j\<in>set (indicesInCountry env f cs).
           js_sub (arr_get t j) (arr_get t j) = Fin 0)
     \<and> (\<forall>series e. calculateCountryTrend env st f = Inr (Some series) \<longrightarrow> e \<in> set series
           \<longrightarrow> rawDate e = k \<longrightarrow> val e = Fin 0)"
proof -
  note flds = load_data_fields[OF pd, of env sInit]
  have tp: "timePoints st = sort (object_keys obj)" by (simp add: st flds)
  have base: "baselineData st (month_key k) = Some t"
    using baseline_of_last_key[of k obj "baselineData sInit"] k last t
    by (simp add: st flds)
  have pt: "\<forall>j\<in>set (indicesInCountry env f cs). js_sub (arr_get t j) (arr_get t j) = Fin 0"
    using nums by (auto simp: js_sub_def)
  have tr: "trendPoint env st (indicesInCountry env f cs) k =
      Inr \<lparr>date = dateParser env k, val = Fin 0, rawDate = k\<rparr>"
    using base t sumLoop_self_baseline[OF nums, of 0 0]
    by (simp add: trendPoint_def st flds)
  have "val e = Fin 0" if "calculateCountryTrend env st f = Inr (Some series)" "e \<in> set series"
    "rawDate e = k" for series e
  proof -
    from series_member[OF that(1,2)] that(3)
    have "trendPoint env st (indicesInCountry env f cs) k = Inr e"
      by (simp add: st flds)
    with tr show ?thesis by simp
  qed
  with base pt show ?thesis by blast
qed

lemma enumerate_nth_map: "enumerate n xs = map (\<lambda>j. (n + j, xs ! j)) [0..<length xs]"
  by (rule nth_equalityI) (simp_all add: nth_enumerate_eq)

lemma assembleData_array:
  "assembleData a b (Some t) ps =
     Inr (map (\<lambda>(j, p). (the p, renderValue a b t j)) (filter (\<lambda>(j, p). p \<noteq> None) ps))"
  by (induction ps) (auto split: option.splits)

lemma assembleData_indices:
  "assembleData a b (Some t) (enumerate 0 sc) =
     Inr (map (\<lambda>j. (the (sc ! j), renderValue a b t j))
            (filter (\<lambda>j. sc ! j \<noteq> None) [0..<length sc]))"
  by (simp add: assembleData_array enumerate_nth_map filter_map comp_def)

lemma renderHeatmap_array:
  assumes "i < length (timePoints st)" "allTemperatureData st = Some obj"
    "object_get obj (timePoints st ! i) = Some t"
  shows "completed (renderHeatmap st i)"
    and "heatmapCircles (final (renderHeatmap st i)) =
      map (\<lambda>j. \<lparr>cx = fst (the (screenCoords st ! j)), cy = snd (the (screenCoords st ! j)),
                fill = (currentColorScale st,
                        renderValue (isAnomalyMode st)
                          (if isAnomalyMode st then baselineData st (month_key (timePoints st ! i))
                           else None) t j)\<rparr>)
          (filter (\<lambda>j. screenCoords st ! j \<noteq> None) [0..<length (screenCoords st)])"
proof -
  have ne: "timePoints st \<noteq> []" using assms(1) by auto
  show "completed (renderHeatmap st i)"
    using assms ne by (simp add: renderHeatmap_def Let_def assembleData_indices)
  show "heatmapCircles (final (renderHeatmap st i)) =
      map (\<lambda>j. \<lparr>cx = fst (the (screenCoords st ! j)), cy = snd (the (screenCoords st ! j)),
                fill = (currentColorScale st,
                        renderValue (isAnomalyMode st)
                          (if isAnomalyMode st then baselineData st (month_key (timePoints st ! i))
                           else None) t j)\<rparr>)
          (filter (\<lambda>j. screenCoords st ! j \<noteq> None) [0..<length (screenCoords st)])"
    using assms ne
    by (simp add: renderHeatmap_def Let_def assembleData_indices updateChartsSync_def comp_def)
qed

text \<open>
  Claim C2, as amended. In anomaly mode, for a date whose array is loaded: when a
  baseline array is stored for the month of the date, \<open>renderHeatmap\<close> gives a point
  whose baseline entry is missing (\<open>undefined\<close> or \<open>null\<close>) the value \<open>0\<close>, and the
  reading minus the baseline entry otherwise; when no baseline array is stored for the
  month, \<open>renderHeatmap\<close> and the aggregation of \<open>calculateCountryTrend\<close> both use the
  readings unchanged, as in absolute mode.
\<close>

theorem missing_baseline_values:
  assumes "isAnomalyMode st" "i < length (timePoints st)" "allTemperatureData st = Some obj"
    "object_get obj (timePoints st ! i) = Some t"
  shows "(\<forall>b. baselineData st (month_key (timePoints st ! i)) = Some b \<longrightarrow>
            map (snd \<circ> fill) (heatmapCircles (final (renderHeatmap st i))) =
              map (\<lambda>j. if arr_get b j = Undefined \<or> arr_get b j = Null then Number (Fin 0)
                        else Number (js_sub (arr_get t j) (arr_get b j)))
                (filter (\<lambda>j. screenCoords st ! j \<noteq> None) [0..<length (screenCoords st)]))
       \<and> (baselineData st (month_key (timePoints st ! i)) = None \<longrightarrow>
            map (snd \<circ> fill) (heatmapCircles (final (renderHeatmap st i))) =
              map (arr_get t)
                (filter (\<lambda>j. screenCoords st ! j \<noteq> None) [0..<length (screenCoords st)])
            \<and> trendPoint env st idxs (timePoints st ! i) =
                trendPoint env (st\<lparr>isAnomalyMode := False\<rparr>) idxs (timePoints st ! i))"
  using assms
  by (auto simp: renderHeatmap_array(2)[OF assms(2,3,4)] renderValue_def trendPoint_def comp_def)

lemma box_unit_contains:
  "geoContains box_d3 (box_country n ((-1, -1), (1, 1))) (0, 0)"
  by (simp add: box_d3_def box_country_def)

lemma box_dateParser: "dateParser box_d3 s = (if length s = 19 then Some s else None)"
  by (simp add: box_d3_def)

lemma box_projection: "projection box_d3 c = Some c"
  by (simp add: box_d3_def)

lemma two_january_fields:
  "rawCoords (loadTemperatureData env two_january_payload sInit) = Some [(0, 0)]"
  "timePoints (loadTemperatureData env two_january_payload sInit) = [''2015-01-01'', ''2015-01-15'']"
  "allTemperatureData (loadTemperatureData env two_january_payload sInit) =
     Some [(''2015-01-01'', Some [Number (Fin 280)]), (''2015-01-15'', Some [Number (Fin 285)])]"
  "baselineData (loadTemperatureData env two_january_payload sInit) ''01'' = Some [Number (Fin 285)]"
proof -
  have c: "coords two_january_payload = Some [(0, 0)]"
    and t: "payloadTemperatures two_january_payload =
      Some [(''2015-01-01'', Some [Number (Fin 280)]), (''2015-01-15'', Some [Number (Fin 285)])]"
    by (simp_all add: two_january_payload_def payloadTemperatures_def)
  note flds = load_data_fields[OF c t, of env sInit]
  show "rawCoords (loadTemperatureData env two_january_payload sInit) = Some [(0, 0)]"
    by (simp add: flds)
  show "timePoints (loadTemperatureData env two_january_payload sInit) = [''2015-01-01'', ''2015-01-15'']"
    by (simp add: flds object_keys_def)
  show "allTemperatureData (loadTemperatureData env two_january_payload sInit) =
     Some [(''2015-01-01'', Some [Number (Fin 280)]), (''2015-01-15'', Some [Number (Fin 285)])]"
    by (simp add: flds)
  show "baselineData (loadTemperatureData env two_january_payload sInit) ''01'' = Some [Number (Fin 285)]"
    by (simp add: flds object_keys_def baselineStep_def startsWith_def object_get_def)
qed

text \<open>
  Claim C5 as stated fails when the baseline year has two records in one month: the
  later record is the stored baseline, and the earlier date, itself of the baseline
  year, gets the aggregated value \<open>280 - 285 = -5\<close>.
\<close>

theorem self_baseline_counterexample:
  "startsWith ''2015-01-01'' ''2015''
   \<and> calculateCountryTrend box_d3
       ((loadTemperatureData box_d3 two_january_payload (initial_state []))\<lparr>isAnomalyMode := True\<rparr>)
       (box_country ''A'' ((-1, -1), (1, 1))) =
     Inr (Some [\<lparr>date = None, val = Fin (- 5), rawDate = ''2015-01-01''\<rparr>,
                \<lparr>date = None, val = Fin 0, rawDate = ''2015-01-15''\<rparr>])"
proof -
  have idx: "indicesInCountry box_d3 (box_country ''A'' ((-1, -1), (1, 1))) [(0, 0)] = [0]"
    using box_unit_contains[of "''A''"] by (simp add: indicesInCountry_def)
  show ?thesis
    by (simp add: startsWith_def calculateCountryTrend_def trendPoint_def two_january_fields idx
        object_get_def month_key_def arr_get_def js_sub_def js_add_def box_dateParser)
qed

lemma example_anomaly_series:
  "calculateCountryTrend box_d3
       ((loadTemperatureData box_d3 example_payload (initial_state []))\<lparr>isAnomalyMode := True\<rparr>)
       (box_country ''A'' ((-1, -1), (1, 1))) =
     Inr (Some [\<lparr>date = None, val = Fin 0, rawDate = ''2015-01-01''\<rparr>,
                \<lparr>date = None, val = Fin 2, rawDate = ''2016-01-01''\<rparr>])"
  by (simp add: calculateCountryTrend_def trendPoint_def example_fields
      example_indices[OF box_contains] example_temperatures object_get_def month_key_def
      example_split arr_get_def js_sub_def js_add_def box_dateParser)

theorem self_baseline_last_record_of_month_witness:
  "baselineData ((loadTemperatureData box_d3 example_payload (initial_state []))
      \<lparr>isAnomalyMode := True\<rparr>) (month_key ''2015-01-01'') = Some [Number (Fin 280), Number (Fin 290)]
   \<and> (\<exists>series e. calculateCountryTrend box_d3
          ((loadTemperatureData box_d3 example_payload (initial_state []))\<lparr>isAnomalyMode := True\<rparr>)
          (box_country ''A'' ((-1, -1), (1, 1))) = Inr (Some series) \<and> e \<in> set series
           \<and> rawDate e = ''2015-01-01'' \<and> val e = Fin 0)"
proof -
  let ?obj = "[(''2015-01-01'', Some [Number (Fin 280), Number (Fin 290)]),
               (''2016-01-01'', Some [Number (Fin 282), Number (Fin 285)])]"
  let ?f = "box_country ''A'' ((-1, -1), (1, 1)) :: box feature"
  let ?st = "(loadTemperatureData box_d3 example_payload (initial_state []))
      \<lparr>isAnomalyMode := True\<rparr> :: (box, string) app_state"
  have idx: "indicesInCountry box_d3 ?f [(0, 0), (10, 10)] = [0]"
    by (rule example_indices[OF box_contains])
  have h1: "coords example_payload = Some [(0, 0), (10, 10)]"
    and h2: "payloadTemperatures example_payload = Some ?obj"
    by (simp_all add: example_payload_def payloadTemperatures_def)
  have h3: "''2015-01-01'' \<in> set (timePoints ?st)" by (simp add: example_fields)
  have h4: "startsWith ''2015-01-01'' ''2015''" by (simp add: startsWith_def)
  have h5: "1 < length (split_on CHR ''-'' ''2015-01-01'')" by simp
  have h6: "\<forall>k'\<in>set (timePoints ?st). ''2015-01-01'' < k' \<and> startsWith k' ''2015''
        \<and> 1 < length (split_on CHR ''-'' k') \<longrightarrow> month_key k' \<noteq> month_key ''2015-01-01''"
    by (simp add: example_fields startsWith_def)
  have h7: "object_get ?obj ''2015-01-01'' = Some [Number (Fin 280), Number (Fin 290)]"
    by (simp add: object_get_def)
  have h8: "\<forall>j\<in>set (indicesInCountry box_d3 ?f [(0, 0), (10, 10)]).
      \<exists>r. arr_get [Number (Fin 280), Number (Fin 290)] j = Number (Fin r)"
    by (simp add: idx arr_get_def)
  note fact0 = self_baseline_last_record_of_month[OF h1 h2 refl h3 h4 h5 h6 h7 h8]
  obtain series e where se: "calculateCountryTrend box_d3 ?st ?f = Inr (Some series)"
    "e \<in> set series" "rawDate e = ''2015-01-01''"
    using example_anomaly_series by fastforce
  from fact0 se have "val e = Fin 0" by blast
  with fact0 se show ?thesis by blast
qed

lemma no_baseline_fields:
  "rawCoords (loadTemperatureData env no_baseline_payload sInit) = Some [(0, 0)]"
  "screenCoords (loadTemperatureData env no_baseline_payload sInit) = [projection env (0, 0)]"
  "timePoints (loadTemperatureData env no_baseline_payload sInit) = [''2016-03-01'']"
  "allTemperatureData (loadTemperatureData env no_baseline_payload sInit) =
     Some [(''2016-03-01'', Some [Number (Fin 282)])]"
  "baselineData (loadTemperatureData env no_baseline_payload sInit) = baselineData sInit"
proof -
  have c: "coords no_baseline_payload = Some [(0, 0)]"
    and t: "payloadTemperatures no_baseline_payload = Some [(''2016-03-01'', Some [Number (Fin 282)])]"
    by (simp_all add: no_baseline_payload_def payloadTemperatures_def)
  note flds = load_data_fields[OF c t, of env sInit]
  show "rawCoords (loadTemperatureData env no_baseline_payload sInit) = Some [(0, 0)]"
    by (simp add: flds)
  show "screenCoords (loadTemperatureData env no_baseline_payload sInit) = [projection env (0, 0)]"
    by (simp add: flds)
  show "timePoints (loadTemperatureData env no_baseline_payload sInit) = [''2016-03-01'']"
    by (simp add: flds object_keys_def)
  show "allTemperatureData (loadTemperatureData env no_baseline_payload sInit) =
     Some [(''2016-03-01'', Some [Number (Fin 282)])]"
    by (simp add: flds)
  show "baselineData (loadTemperatureData env no_baseline_payload sInit) = baselineData sInit"
    by (simp add: flds object_keys_def baselineStep_def startsWith_def)
qed

text \<open>
  Claim C2 as stated fails on a dataset without a record of the baseline year: in
  anomaly mode no baseline array is stored for the month of the date, and both the
  heatmap value and the value of the country are the absolute reading \<open>282\<close>, not zero.
\<close>

theorem missing_baseline_counterexample:
  "isAnomalyMode ((loadTemperatureData box_d3 no_baseline_payload (initial_state []))
      \<lparr>isAnomalyMode := True\<rparr>)
   \<and> baselineData ((loadTemperatureData box_d3 no_baseline_payload (initial_state []))
      \<lparr>isAnomalyMode := True\<rparr>) (month_key ''2016-03-01'') = None
   \<and> map (snd \<circ> fill) (heatmapCircles (final (renderHeatmap
       ((loadTemperatureData box_d3 no_baseline_payload (initial_state []))
          \<lparr>isAnomalyMode := True\<rparr>) 0))) = [Number (Fin 282)]
   \<and> calculateCountryTrend box_d3
       ((loadTemperatureData box_d3 no_baseline_payload (initial_state []))\<lparr>isAnomalyMode := True\<rparr>)
       (box_country ''A'' ((-1, -1), (1, 1))) =
     Inr (Some [\<lparr>date = None, val = Fin 282, rawDate = ''2016-03-01''\<rparr>])"
proof -
  let ?st = "(loadTemperatureData box_d3 no_baseline_payload (initial_state []))
      \<lparr>isAnomalyMode := True\<rparr> :: (box, string) app_state"
  have idx: "indicesInCountry box_d3 (box_country ''A'' ((-1, -1), (1, 1))) [(0, 0)] = [0]"
    using box_unit_contains[of "''A''"] by (simp add: indicesInCountry_def)
  have b: "baselineData ?st (month_key ''2016-03-01'') = None"
    by (simp add: no_baseline_fields initial_state_def)
  have r: "map (snd \<circ> fill) (heatmapCircles (final (renderHeatmap ?st 0))) = [Number (Fin 282)]"
    using b by (simp add: renderHeatmap_def no_baseline_fields object_get_def box_projection
        renderValue_def arr_get_def updateChartsSync_def enumerate_eq_zip)
  have c: "calculateCountryTrend box_d3 ?st (box_country ''A'' ((-1, -1), (1, 1))) =
     Inr (Some [\<lparr>date = None, val = Fin 282, rawDate = ''2016-03-01''\<rparr>])"
    using b by (simp add: calculateCountryTrend_def trendPoint_def no_baseline_fields idx
        object_get_def arr_get_def js_add_def box_dateParser)
  from b r c show ?thesis by simp
qed

lemma short_baseline_fields:
  "screenCoords (loadTemperatureData env short_baseline_payload sInit) =
     [projection env (0, 0), projection env (10, 10)]"
  "timePoints (loadTemperatureData env short_baseline_payload sInit) = [''2015-01-01'', ''2016-01-01'']"
  "allTemperatureData (loadTemperatureData env short_baseline_payload sInit) =
     Some [(''2015-01-01'', Some [Number (Fin 280)]),
           (''2016-01-01'', Some [Number (Fin 282), Number (Fin 285)])]"
  "baselineData (loadTemperatureData env short_baseline_payload sInit) ''01'' = Some [Number (Fin 280)]"
proof -
  have c: "coords short_baseline_payload = Some [(0, 0), (10, 10)]"
    and t: "payloadTemperatures short_baseline_payload =
      Some [(''2015-01-01'', Some [Number (Fin 280)]),
            (''2016-01-01'', Some [Number (Fin 282), Number (Fin 285)])]"
    by (simp_all add: short_baseline_payload_def payloadTemperatures_def)
  note flds = load_data_fields[OF c t, of env sInit]
  show "screenCoords (loadTemperatureData env short_baseline_payload sInit) =
     [projection env (0, 0), projection env (10, 10)]"
    by (simp add: flds)
  show "timePoints (loadTemperatureData env short_baseline_payload sInit) = [''2015-01-01'', ''2016-01-01'']"
    by (simp add: flds object_keys_def)
  show "allTemperatureData (loadTemperatureData env short_baseline_payload sInit) =
     Some [(''2015-01-01'', Some [Number (Fin 280)]),
           (''2016-01-01'', Some [Number (Fin 282), Number (Fin 285)])]"
    by (simp add: flds)
  show "baselineData (loadTemperatureData env short_baseline_payload sInit) ''01'' = Some [Number (Fin 280)]"
    by (simp add: flds object_keys_def baselineStep_def startsWith_def object_get_def)
qed


lemma upt_two: "[0..<Suc (Suc 0)] = [0, Suc 0]"
  by (simp add: upt_rec)

theorem missing_baseline_values_witness:
  "map (snd \<circ> fill) (heatmapCircles (final (renderHeatmap
       ((loadTemperatureData box_d3 short_baseline_payload (initial_state []))
          \<lparr>isAnomalyMode := True\<rparr>) 1))) = [Number (Fin 2), Number (Fin 0)]
   \<and> map (snd \<circ> fill) (heatmapCircles (final (renderHeatmap
       ((loadTemperatureData box_d3 no_baseline_payload (initial_state []))
          \<lparr>isAnomalyMode := True\<rparr>) 0))) = [Number (Fin 282)]"
proof -
  let ?s = "(loadTemperatureData box_d3 short_baseline_payload (initial_state []))
          \<lparr>isAnomalyMode := True\<rparr> :: (box, string) app_state"
  let ?n = "(loadTemperatureData box_d3 no_baseline_payload (initial_state []))
          \<lparr>isAnomalyMode := True\<rparr> :: (box, string) app_state"
  let ?os = "[(''2015-01-01'', Some [Number (Fin 280)]),
           (''2016-01-01'', Some [Number (Fin 282), Number (Fin 285)])]"
  let ?on = "[(''2016-03-01'', Some [Number (Fin 282)])]"
  have s1: "isAnomalyMode ?s" by simp
  have s2: "1 < length (timePoints ?s)" by (simp add: short_baseline_fields)
  have s3: "allTemperatureData ?s = Some ?os" by (simp add: short_baseline_fields)
  have s4: "object_get ?os (timePoints ?s ! 1) = Some [Number (Fin 282), Number (Fin 285)]"
    by (simp add: short_baseline_fields object_get_def)
  have s5: "baselineData ?s (month_key (timePoints ?s ! 1)) = Some [Number (Fin 280)]"
    by (simp add: short_baseline_fields month_key_def)
  have n1: "isAnomalyMode ?n" by simp
  have n2: "0 < length (timePoints ?n)" by (simp add: no_baseline_fields)
  have n3: "allTemperatureData ?n = Some ?on" by (simp add: no_baseline_fields)
  have n4: "object_get ?on (timePoints ?n ! 0) = Some [Number (Fin 282)]"
    by (simp add: no_baseline_fields object_get_def)
  have n5: "baselineData ?n (month_key (timePoints ?n ! 0)) = None"
    by (simp add: no_baseline_fields initial_state_def)
  from missing_baseline_values[OF s1 s2 s3 s4, of box_d3 "[]"] s5
  have a: "map (snd \<circ> fill) (heatmapCircles (final (renderHeatmap ?s 1))) =
      [Number (Fin 2), Number (Fin 0)]"
    by (simp add: short_baseline_fields box_projection arr_get_def js_sub_def upt_two)
  from missing_baseline_values[OF n1 n2 n3 n4, of box_d3 "[]"] n5
  have b: "map (snd \<circ> fill) (heatmapCircles (final (renderHeatmap ?n 0))) = [Number (Fin 282)]"
    by (simp add: no_baseline_fields box_projection arr_get_def)
  from a b show ?thesis by simp
qed



section \<open>What the handlers leave unchanged\<close>

lemma renderHeatmap_fields:
  "revealedCountries (final (renderHeatmap st i)) = revealedCountries st"
  "borders (final (renderHeatmap st i)) = borders st"
  "isPlaying (final (renderHeatmap st i)) = isPlaying st"
  "animationInterval (final (renderHeatmap st i)) = animationInterval st"
  "activeTimers (final (renderHeatmap st i)) = activeTimers st"
  "sliderValue (final (renderHeatmap st i)) = sliderValue st"
  "sliderMax (final (renderHeatmap st i)) = sliderMax st"
  "controlsReady (final (renderHeatmap st i)) = controlsReady st"
  "loadCalled (final (renderHeatmap st i)) = loadCalled st"
  "timePoints (final (renderHeatmap st i)) = timePoints st"
  "rawCoords (final (renderHeatmap st i)) = rawCoords st"
  "allTemperatureData (final (renderHeatmap st i)) = allTemperatureData st"
  "baselineData (final (renderHeatmap st i)) = baselineData st"
  "isAnomalyMode (final (renderHeatmap st i)) = isAnomalyMode st"
  "currentColorScale (final (renderHeatmap st i)) = currentColorScale st"
  "legendAnomaly (final (renderHeatmap st i)) = legendAnomaly st"
proof -
  obtain td hc sb where
    "final (renderHeatmap st i) = st\<lparr>timeDisplay := td, heatmapCircles := hc, sidebar := sb\<rparr>"
    using renderHeatmap_frame by blast
  then show "revealedCountries (final (renderHeatmap st i)) = revealedCountries st"
  "borders (final (renderHeatmap st i)) = borders st"
  "isPlaying (final (renderHeatmap st i)) = isPlaying st"
  "animationInterval (final (renderHeatmap st i)) = animationInterval st"
  "activeTimers (final (renderHeatmap st i)) = activeTimers st"
  "sliderValue (final (renderHeatmap st i)) = sliderValue st"
  "sliderMax (final (renderHeatmap st i)) = sliderMax st"
  "controlsReady (final (renderHeatmap st i)) = controlsReady st"
  "loadCalled (final (renderHeatmap st i)) = loadCalled st"
  "timePoints (final (renderHeatmap st i)) = timePoints st"
  "rawCoords (final (renderHeatmap st i)) = rawCoords st"
  "allTemperatureData (final (renderHeatmap st i)) = allTemperatureData st"
  "baselineData (final (renderHeatmap st i)) = baselineData st"
  "isAnomalyMode (final (renderHeatmap st i)) = isAnomalyMode st"
  "currentColorScale (final (renderHeatmap st i)) = currentColorScale st"
  "legendAnomaly (final (renderHeatmap st i)) = legendAnomaly st"
    by simp_all
qed

lemma toggle_final:
  "final (toggleAnomalyMode env b st) =
     (case forEach_outcome (refreshItem env (st\<lparr>isAnomalyMode := b,
                   currentColorScale := (if b then anomalyColorScale else absoluteColorScale),
                   legendAnomaly := b\<rparr>)) (sidebar st) of
        Thrown e items \<Rightarrow> st\<lparr>isAnomalyMode := b,
                   currentColorScale := (if b then anomalyColorScale else absoluteColorScale),
                   legendAnomaly := b, sidebar := items\<rparr>
      | Done items \<Rightarrow> final (renderHeatmap (st\<lparr>isAnomalyMode := b,
                   currentColorScale := (if b then anomalyColorScale else absoluteColorScale),
                   legendAnomaly := b, sidebar := items\<rparr>) (sliderValue st)))"
  by (simp add: toggleAnomalyMode_def Let_def split: outcome.splits)

lemma toggle_fields:
  "revealedCountries (final (toggleAnomalyMode env b st)) = revealedCountries st"
  "borders (final (toggleAnomalyMode env b st)) = borders st"
  "isPlaying (final (toggleAnomalyMode env b st)) = isPlaying st"
  "animationInterval (final (toggleAnomalyMode env b st)) = animationInterval st"
  "activeTimers (final (toggleAnomalyMode env b st)) = activeTimers st"
  "sliderValue (final (toggleAnomalyMode env b st)) = sliderValue st"
  "sliderMax (final (toggleAnomalyMode env b st)) = sliderMax st"
  "controlsReady (final (toggleAnomalyMode env b st)) = controlsReady st"
  "loadCalled (final (toggleAnomalyMode env b st)) = loadCalled st"
  "timePoints (final (toggleAnomalyMode env b st)) = timePoints st"
  "rawCoords (final (toggleAnomalyMode env b st)) = rawCoords st"
  "allTemperatureData (final (toggleAnomalyMode env b st)) = allTemperatureData st"
  "baselineData (final (toggleAnomalyMode env b st)) = baselineData st"
  "isAnomalyMode (final (toggleAnomalyMode env b st)) = b"
  "currentColorScale (final (toggleAnomalyMode env b st)) =
     (if b then anomalyColorScale else absoluteColorScale)"
  "legendAnomaly (final (toggleAnomalyMode env b st)) = b"
  by (simp_all add: toggle_final renderHeatmap_fields split: outcome.splits)

lemma deferredDraw_fields:
  "revealedCountries (deferredDraw env st) = revealedCountries st"
  "borders (deferredDraw env st) = borders st"
  "isPlaying (deferredDraw env st) = isPlaying st"
  "animationInterval (deferredDraw env st) = animationInterval st"
  "activeTimers (deferredDraw env st) = activeTimers st"
  "sliderValue (deferredDraw env st) = sliderValue st"
  "sliderMax (deferredDraw env st) = sliderMax st"
  "controlsReady (deferredDraw env st) = controlsReady st"
  "loadCalled (deferredDraw env st) = loadCalled st"
  "timePoints (deferredDraw env st) = timePoints st"
  by (simp_all add: deferredDraw_def Let_def updateChartsSync_def split: list.splits prod.splits)

lemma load_fields:
  "revealedCountries (loadTemperatureData env pd st) = revealedCountries st"
  "borders (loadTemperatureData env pd st) = borders st"
  "isPlaying (loadTemperatureData env pd st) = isPlaying st"
  "animationInterval (loadTemperatureData env pd st) = animationInterval st"
  "activeTimers (loadTemperatureData env pd st) = activeTimers st"
  "loadCalled (loadTemperatureData env pd st)"
proof -
  obtain td where td: "loadTemperatureData env pd st = (final (loadBody env pd st))\<lparr>timeDisplay := td\<rparr>"
    using final_load by blast
  have "revealedCountries (final (loadBody env pd st)) = revealedCountries st
    \<and> borders (final (loadBody env pd st)) = borders st
    \<and> isPlaying (final (loadBody env pd st)) = isPlaying st
    \<and> animationInterval (final (loadBody env pd st)) = animationInterval st
    \<and> activeTimers (final (loadBody env pd st)) = activeTimers st
    \<and> loadCalled (final (loadBody env pd st))"
    by (simp add: loadBody_def Let_def renderHeatmap_fields setupControls_def split: option.splits)
  then show "revealedCountries (loadTemperatureData env pd st) = revealedCountries st"
  "borders (loadTemperatureData env pd st) = borders st"
  "isPlaying (loadTemperatureData env pd st) = isPlaying st"
  "animationInterval (loadTemperatureData env pd st) = animationInterval st"
  "activeTimers (loadTemperatureData env pd st) = activeTimers st"
  "loadCalled (loadTemperatureData env pd st)"
    by (simp_all add: td)
qed

lemma load_controls:
  "(controlsReady (loadTemperatureData env pd st) = controlsReady st
      \<and> timePoints (loadTemperatureData env pd st) = timePoints st
      \<and> sliderMax (loadTemperatureData env pd st) = sliderMax st
      \<and> sliderValue (loadTemperatureData env pd st) = sliderValue st)
   \<or> (controlsReady (loadTemperatureData env pd st)
      \<and> sliderMax (loadTemperatureData env pd st) =
          int (length (timePoints (loadTemperatureData env pd st))) - 1
      \<and> sliderValue (loadTemperatureData env pd st) = 0)"
proof -
  obtain td where td: "loadTemperatureData env pd st = (final (loadBody env pd st))\<lparr>timeDisplay := td\<rparr>"
    using final_load by blast
  show ?thesis unfolding td
    by (simp add: loadBody_def Let_def renderHeatmap_fields setupControls_def split: option.splits)
qed

section \<open>Country selection: the border invariant\<close>

lemma border_invariant_frame:
  assumes "border_invariant st" "revealedCountries st' = revealedCountries st" "borders st' = borders st"
  shows "border_invariant st'"
  using assms by (simp add: border_invariant_def)

lemma handleClick_revealed:
  "revealedCountries (handleClick f st) =
     (if getCountryId f \<in> revealedCountries st then revealedCountries st - {getCountryId f}
      else insert (getCountryId f) (revealedCountries st))"
  by (simp add: handleClick_def Let_def updateBorderStyle_def removeFromSelectionList_def
      addToSelectionList_def)

lemma selection_list_revealed:
  "revealedCountries (removeFromSelectionList cid st) = revealedCountries st"
  "revealedCountries (addToSelectionList cid f st) = revealedCountries st"
  "borders (removeFromSelectionList cid st) = borders st"
  "borders (addToSelectionList cid f st) = borders st"
  by (simp_all add: removeFromSelectionList_def addToSelectionList_def)

lemma handleClick_borders:
  "borders (handleClick f st) =
     map (\<lambda>(g, style).
            if getCountryId g = getCountryId f
            then (g, borderStyleFor (getCountryId f \<notin> revealedCountries st))
            else (g, style)) (borders st)"
proof (cases "getCountryId f \<in> revealedCountries st")
  case True
  then show ?thesis
    by (auto simp: handleClick_def Let_def updateBorderStyle_def selection_list_revealed)
next
  case False
  then show ?thesis
    by (auto simp: handleClick_def Let_def updateBorderStyle_def selection_list_revealed)
qed

lemma border_invariant_handleClick:
  assumes "border_invariant st"
  shows "border_invariant (handleClick f st)"
  using assms
  by (auto simp: border_invariant_def handleClick_revealed handleClick_borders split: if_splits)

lemma border_invariant_removeCountry:
  assumes "border_invariant st"
  shows "border_invariant (removeCountry cid st)"
  using assms
  by (auto simp: border_invariant_def removeCountry_def updateBorderStyle_def
      removeFromSelectionList_def split: if_splits)

lemma border_invariant_initial: "border_invariant (initial_state feats)"
  by (auto simp: border_invariant_def initial_state_def borderStyleFor_def)

lemma border_invariant_handle:
  assumes "border_invariant st"
  shows "border_invariant (handle env e st)"
proof (cases e)
  case (DataLoaded pd)
  then show ?thesis using assms by (auto intro: border_invariant_frame simp: load_fields)
next
  case (CountryClick f)
  then show ?thesis using assms by (simp add: border_invariant_handleClick)
next
  case (RemoveClick cid)
  then show ?thesis using assms by (simp add: border_invariant_removeCountry)
next
  case PlayClick
  then show ?thesis using assms
    by (auto intro: border_invariant_frame simp: togglePlay_def)
next
  case (SliderInput v)
  then show ?thesis using assms
    by (auto intro!: border_invariant_frame[OF assms] simp: sliderInput_def togglePlay_def Let_def)
next
  case AnimationFrame
  then show ?thesis using assms
    by (auto intro!: border_invariant_frame[OF assms] simp: animationFrame_def renderHeatmap_fields)
next
  case (AnomalyChange b)
  then show ?thesis using assms
    by (auto intro!: border_invariant_frame[OF assms] simp: toggle_fields)
next
  case (TimerTick t)
  then show ?thesis using assms
    by (auto intro!: border_invariant_frame[OF assms] simp: playbackTick_def Let_def renderHeatmap_fields)
next
  case DeferredDraw
  then show ?thesis using assms
    by (auto intro!: border_invariant_frame[OF assms] simp: deferredDraw_fields)
qed

lemma reachable_border_invariant:
  "reachable env feats st \<Longrightarrow> border_invariant st"
  by (induction rule: reachable.induct) (simp_all add: border_invariant_initial border_invariant_handle)

text \<open>
  Claim C8. In every reachable state, a click on a country toggles its membership in
  the revealed set and leaves that of every other country; its border paths get the
  style of its new state; and two clicks in succession give back the revealed set and
  the stroke and width of every border path.
\<close>

theorem click_twice_restores:
  assumes "reachable env feats st"
  shows "revealedCountries (handleClick f (handleClick f st)) = revealedCountries st
     \<and> borders (handleClick f (handleClick f st)) = borders st
     \<and> (getCountryId f \<in> revealedCountries (handleClick f st)
           \<longleftrightarrow> getCountryId f \<notin> revealedCountries st)
     \<and> (\<forall>cid. cid \<noteq> getCountryId f \<longrightarrow>
           (cid \<in> revealedCountries (handleClick f st) \<longleftrightarrow> cid \<in> revealedCountries st))
     \<and> (\<forall>(g, style)\<in>set (borders (handleClick f st)). getCountryId g = getCountryId f \<longrightarrow>
           style = borderStyleFor (getCountryId f \<in> revealedCountries (handleClick f st)))"
proof -
  have inv: "border_invariant st" using assms by (rule reachable_border_invariant)
  have r: "revealedCountries (handleClick f (handleClick f st)) = revealedCountries st"
    by (auto simp: handleClick_revealed)
  have "map (\<lambda>(g, style).
            if getCountryId g = getCountryId f
            then (g, borderStyleFor (getCountryId f \<in> revealedCountries st))
            else (g, style)) (borders st) = map (\<lambda>x. x) (borders st)"
    using inv by (intro map_cong) (auto simp: border_invariant_def)
  moreover have "borders (handleClick f (handleClick f st)) =
      map (\<lambda>(g, style).
            if getCountryId g = getCountryId f
            then (g, borderStyleFor (getCountryId f \<in> revealedCountries st))
            else (g, style)) (borders st)"
    unfolding handleClick_borders[of f "handleClick f st"] handleClick_borders[of f st]
    by (auto simp: handleClick_revealed)
  ultimately have b: "borders (handleClick f (handleClick f st)) = borders st"
    by simp
  have t: "getCountryId f \<in> revealedCountries (handleClick f st)
           \<longleftrightarrow> getCountryId f \<notin> revealedCountries st"
    by (simp add: handleClick_revealed)
  have o: "\<forall>cid. cid \<noteq> getCountryId f \<longrightarrow>
           (cid \<in> revealedCountries (handleClick f st) \<longleftrightarrow> cid \<in> revealedCountries st)"
    by (simp add: handleClick_revealed)
  have s: "\<forall>(g, style)\<in>set (borders (handleClick f st)). getCountryId g = getCountryId f \<longrightarrow>
           style = borderStyleFor (getCountryId f \<in> revealedCountries (handleClick f st))"
    by (auto simp: handleClick_borders handleClick_revealed split: if_splits)
  from r b t o s show ?thesis by blast
qed

theorem click_twice_restores_witness:
  "revealedCountries (handleClick (box_country ''A'' ((-1, -1), (1, 1)))
      (initial_state [box_country ''A'' ((-1, -1), (1, 1))] :: (box, string) app_state)) = {''A''}
   \<and> revealedCountries (handleClick (box_country ''A'' ((-1, -1), (1, 1)))
        (handleClick (box_country ''A'' ((-1, -1), (1, 1)))
          (initial_state [box_country ''A'' ((-1, -1), (1, 1))] :: (box, string) app_state))) = {}
   \<and> borders (handleClick (box_country ''A'' ((-1, -1), (1, 1)))
        (handleClick (box_country ''A'' ((-1, -1), (1, 1)))
          (initial_state [box_country ''A'' ((-1, -1), (1, 1))] :: (box, string) app_state))) =
       [(box_country ''A'' ((-1, -1), (1, 1)), \<lparr>stroke = ''#94a3b8'', stroke_width = ''0.5px''\<rparr>)]"
proof -
  let ?f = "box_country ''A'' ((-1, -1), (1, 1)) :: box feature"
  let ?s = "initial_state [?f] :: (box, string) app_state"
  have r: "reachable box_d3 [?f] ?s" by (rule reachable.start)
  have i: "getCountryId ?f = ''A''" by (simp add: getCountryId_def box_country_def truthy_def)
  have s0: "revealedCountries ?s = {}"
    "borders ?s = [(?f, \<lparr>stroke = ''#94a3b8'', stroke_width = ''0.5px''\<rparr>)]"
    by (simp_all add: initial_state_def)
  have a: "revealedCountries (handleClick ?f ?s) = {''A''}"
    by (simp add: handleClick_revealed i s0)
  from click_twice_restores[OF r, of ?f] have "revealedCountries (handleClick ?f (handleClick ?f ?s)) = revealedCountries ?s
     \<and> borders (handleClick ?f (handleClick ?f ?s)) = borders ?s" by blast
  with a show ?thesis by (simp add: s0)
qed

section \<open>Playback: the timer invariant\<close>

lemma playback_invariant_initial: "playback_invariant (initial_state feats)"
  by (simp add: playback_invariant_def initial_state_def)

lemma playback_invariant_frame:
  assumes "playback_invariant st" "isPlaying st' = isPlaying st"
    "animationInterval st' = animationInterval st" "activeTimers st' = activeTimers st"
    "controlsReady st' = controlsReady st" "loadCalled st' = loadCalled st"
    "sliderMax st' = sliderMax st" "timePoints st' = timePoints st"
    "sliderValue st' = sliderValue st"
  shows "playback_invariant st'"
  using assms unfolding playback_invariant_def by metis

lemma playback_invariant_togglePlay:
  assumes "playback_invariant st" "controlsReady st"
  shows "playback_invariant (togglePlay st)"
  using assms by (auto simp: playback_invariant_def togglePlay_def)

lemma playback_invariant_sliderInput:
  assumes "playback_invariant st" "controlsReady st" "int v \<le> max 0 (sliderMax st)"
  shows "playback_invariant (sliderInput v st)"
  using assms by (auto simp: playback_invariant_def sliderInput_def togglePlay_def Let_def)

lemma playback_invariant_tick:
  assumes "playback_invariant st"
  shows "playback_invariant (playbackTick st)"
  using assms by (auto simp: playback_invariant_def playbackTick_def Let_def renderHeatmap_fields)

lemma playback_invariant_load:
  assumes "playback_invariant st" "\<not> loadCalled st"
  shows "playback_invariant (loadTemperatureData env pd st)"
  using assms load_controls[of env pd st]
  by (auto simp: playback_invariant_def load_fields)

lemma playback_invariant_handle:
  assumes "playback_invariant st" "enabled e st"
  shows "playback_invariant (handle env e st)"
proof (cases e)
  case (DataLoaded pd)
  then show ?thesis using assms by (simp add: playback_invariant_load)
next
  case (CountryClick f)
  then show ?thesis
    by (auto intro!: playback_invariant_frame[OF assms(1)]
        simp: handleClick_def Let_def updateBorderStyle_def removeFromSelectionList_def
          addToSelectionList_def)
next
  case (RemoveClick cid)
  then show ?thesis
    by (auto intro!: playback_invariant_frame[OF assms(1)]
        simp: removeCountry_def updateBorderStyle_def removeFromSelectionList_def)
next
  case PlayClick
  then show ?thesis using assms by (simp add: playback_invariant_togglePlay)
next
  case (SliderInput v)
  then show ?thesis using assms by (simp add: playback_invariant_sliderInput)
next
  case AnimationFrame
  then show ?thesis
    by (auto intro!: playback_invariant_frame[OF assms(1)]
        simp: animationFrame_def renderHeatmap_fields)
next
  case (AnomalyChange b)
  then show ?thesis
    by (auto intro!: playback_invariant_frame[OF assms(1)] simp: toggle_fields)
next
  case (TimerTick t)
  then show ?thesis using assms by (simp add: playback_invariant_tick)
next
  case DeferredDraw
  then show ?thesis
    by (auto intro!: playback_invariant_frame[OF assms(1)] simp: deferredDraw_fields)
qed

lemma reachable_playback_invariant:
  "reachable env feats st \<Longrightarrow> playback_invariant st"
  by (induction rule: reachable.induct)
     (simp_all add: playback_invariant_initial playback_invariant_handle)

text \<open>
  Claim C9. In every reachable state, whatever the events were, at most one playback
  interval is in the timer table, and one is there exactly while playing;
  \<open>togglePlay\<close> starts an interval only when not playing and clears the running one
  when pausing; a drag of the slider leaves no interval running; and once the controls
  are set up over a non-empty list of time points the slider value is an index of that
  list, the playback step advancing it by one and wrapping from the last index to zero.
\<close>

theorem single_playback_timer:
  assumes "reachable env feats st"
  shows "finite (activeTimers st) \<and> card (activeTimers st) \<le> 1
     \<and> (isPlaying st \<longleftrightarrow> activeTimers st \<noteq> {})
     \<and> (\<not> isPlaying st \<longrightarrow> activeTimers (togglePlay st) = {nextTimerId st}
            \<and> animationInterval (togglePlay st) = Some (nextTimerId st))
     \<and> (isPlaying st \<longrightarrow> activeTimers (togglePlay st) = {})
     \<and> activeTimers (sliderInput v st) = {} \<and> \<not> isPlaying (sliderInput v st)
     \<and> (controlsReady st \<and> timePoints st \<noteq> [] \<longrightarrow>
           sliderValue st < length (timePoints st)
           \<and> sliderValue (playbackTick st) < length (timePoints st)
           \<and> sliderValue (playbackTick st) =
               (if sliderValue st + 1 = length (timePoints st) then 0 else sliderValue st + 1))"
proof -
  have inv: "playback_invariant st" using assms by (rule reachable_playback_invariant)
  have timers: "finite (activeTimers st) \<and> card (activeTimers st) \<le> 1
     \<and> (isPlaying st \<longleftrightarrow> activeTimers st \<noteq> {})"
    using inv by (cases "isPlaying st") (auto simp: playback_invariant_def)
  have play: "\<not> isPlaying st \<longrightarrow> activeTimers (togglePlay st) = {nextTimerId st}
            \<and> animationInterval (togglePlay st) = Some (nextTimerId st)"
    using inv by (auto simp: playback_invariant_def togglePlay_def)
  have pause: "isPlaying st \<longrightarrow> activeTimers (togglePlay st) = {}"
    using inv by (auto simp: playback_invariant_def togglePlay_def)
  have drag: "activeTimers (sliderInput v st) = {} \<and> \<not> isPlaying (sliderInput v st)"
    using inv by (auto simp: playback_invariant_def sliderInput_def togglePlay_def Let_def)
  have idx: "sliderValue st < length (timePoints st)
           \<and> sliderValue (playbackTick st) < length (timePoints st)
           \<and> sliderValue (playbackTick st) =
               (if sliderValue st + 1 = length (timePoints st) then 0 else sliderValue st + 1)"
    if "controlsReady st" "timePoints st \<noteq> []"
  proof -
    from that have l: "0 < length (timePoints st)" by simp
    from inv that(1) have m: "sliderMax st = int (length (timePoints st)) - 1"
      and v: "int (sliderValue st) \<le> max 0 (sliderMax st)"
      unfolding playback_invariant_def by blast+
    from m v l have b: "sliderValue st < length (timePoints st)" by auto
    then show ?thesis using m
      by (auto simp: playbackTick_def Let_def renderHeatmap_fields)
  qed
  from timers play pause drag idx show ?thesis by blast
qed

lemma load_control_fields:
  assumes "coords pd = Some cs" "payloadTemperatures pd = Some obj"
  shows "controlsReady (loadTemperatureData env pd sInit)"
    "sliderValue (loadTemperatureData env pd sInit) = 0"
    "sliderMax (loadTemperatureData env pd sInit) = int (length (object_keys obj)) - 1"
    "nextTimerId (loadTemperatureData env pd sInit) = nextTimerId sInit"
    "sidebar (final (loadBody env pd sInit)) = sidebar (loadTemperatureData env pd sInit)"
proof -
  obtain td hc sb td' where
    "loadTemperatureData env pd sInit =
      sInit\<lparr>loadCalled := True, rawCoords := Some cs, screenCoords := map (projection env) cs,
          allTemperatureData := Some obj, timePoints := sort (object_keys obj),
          baselineData := foldl (baselineStep obj) (baselineData sInit) (sort (object_keys obj)),
          sliderMax := int (length (sort (object_keys obj))) - 1, sliderValue := 0, controlsReady := True,
          timeDisplay := td, heatmapCircles := hc, sidebar := sb, timeDisplay := td'\<rparr>"
    using loadBody_ok[OF assms, of env sInit] final_load[of env pd sInit] by metis
  then show "controlsReady (loadTemperatureData env pd sInit)"
    "sliderValue (loadTemperatureData env pd sInit) = 0"
    "sliderMax (loadTemperatureData env pd sInit) = int (length (object_keys obj)) - 1"
    "nextTimerId (loadTemperatureData env pd sInit) = nextTimerId sInit"
    by simp_all
  obtain td2 where "loadTemperatureData env pd sInit = (final (loadBody env pd sInit))\<lparr>timeDisplay := td2\<rparr>"
    using final_load by blast
  then show "sidebar (final (loadBody env pd sInit)) = sidebar (loadTemperatureData env pd sInit)"
    by simp
qed

lemma example_controls:
  "controlsReady (loadTemperatureData env example_payload sInit)"
  "sliderValue (loadTemperatureData env example_payload sInit) = 0"
  "sliderMax (loadTemperatureData env example_payload sInit) = 1"
  "nextTimerId (loadTemperatureData env example_payload sInit) = nextTimerId sInit"
proof -
  have c: "coords example_payload = Some [(0, 0), (10, 10)]"
    and t: "payloadTemperatures example_payload =
      Some [(''2015-01-01'', Some [Number (Fin 280), Number (Fin 290)]),
            (''2016-01-01'', Some [Number (Fin 282), Number (Fin 285)])]"
    by (simp_all add: example_payload_def payloadTemperatures_def)
  note flds = load_control_fields[OF c t, of env sInit]
  show "controlsReady (loadTemperatureData env example_payload sInit)"
    "sliderValue (loadTemperatureData env example_payload sInit) = 0"
    "sliderMax (loadTemperatureData env example_payload sInit) = 1"
    "nextTimerId (loadTemperatureData env example_payload sInit) = nextTimerId sInit"
    by (simp_all add: flds object_keys_def)
qed

theorem single_playback_timer_witness:
  "activeTimers (handle box_d3 (TimerTick 0) (handle box_d3 PlayClick
      (handle box_d3 (DataLoaded example_payload) (initial_state [])))) = {0}
   \<and> card (activeTimers (handle box_d3 (TimerTick 0) (handle box_d3 PlayClick
      (handle box_d3 (DataLoaded example_payload) (initial_state []))))) \<le> 1
   \<and> sliderValue (handle box_d3 (TimerTick 0) (handle box_d3 PlayClick
      (handle box_d3 (DataLoaded example_payload) (initial_state [])))) = 1
   \<and> sliderValue (playbackTick (handle box_d3 (TimerTick 0) (handle box_d3 PlayClick
      (handle box_d3 (DataLoaded example_payload) (initial_state []))))) = 0
   \<and> activeTimers (sliderInput 0 (handle box_d3 (TimerTick 0) (handle box_d3 PlayClick
      (handle box_d3 (DataLoaded example_payload) (initial_state []))))) = {}"
proof -
  let ?s0 = "initial_state [] :: (box, string) app_state"
  let ?s1 = "handle box_d3 (DataLoaded example_payload) ?s0"
  let ?s2 = "handle box_d3 PlayClick ?s1"
  let ?s3 = "handle box_d3 (TimerTick 0) ?s2"
  have r0: "reachable box_d3 [] ?s0" by (rule reachable.start)
  have r1: "reachable box_d3 [] ?s1"
    by (rule reachable.step[OF r0]) (simp add: initial_state_def)
  have f1: "controlsReady ?s1" "sliderValue ?s1 = 0" "sliderMax ?s1 = 1" "nextTimerId ?s1 = 0"
    "isPlaying ?s1 = False" "activeTimers ?s1 = {}"
    "timePoints ?s1 = [''2015-01-01'', ''2016-01-01'']"
    by (simp_all add: example_controls example_fields load_fields initial_state_def)
  have r2: "reachable box_d3 [] ?s2"
    by (rule reachable.step[OF r1]) (use f1 in simp)
  have f2: "controlsReady ?s2" "sliderValue ?s2 = 0" "sliderMax ?s2 = 1"
    "activeTimers ?s2 = {0}" "isPlaying ?s2" "timePoints ?s2 = [''2015-01-01'', ''2016-01-01'']"
    using f1 by (simp_all add: togglePlay_def)
  have r3: "reachable box_d3 [] ?s3"
    by (rule reachable.step[OF r2]) (use f2 in simp)
  have f3: "controlsReady ?s3" "sliderValue ?s3 = 1" "activeTimers ?s3 = {0}"
    "timePoints ?s3 = [''2015-01-01'', ''2016-01-01'']"
    using f2 by (simp_all add: playbackTick_def Let_def renderHeatmap_fields)
  note c9 = single_playback_timer[OF r3, of 0]
  from c9 have a: "card (activeTimers ?s3) \<le> 1" by blast
  from c9 f3 have b: "sliderValue (playbackTick ?s3) = 0" by simp
  from c9 have c: "activeTimers (sliderInput 0 ?s3) = {}" by blast
  from a b c f3 show ?thesis by simp
qed

section \<open>Mode switching\<close>

subsection \<open>Absolute and anomaly aggregation side by side\<close>

lemma num_add_NaN [simp]: "num_add NaN x = NaN" "num_add x NaN = NaN"
  by (cases x; simp)+

lemma num_sub_NaN [simp]: "num_sub NaN x = NaN"
  by (cases x; simp)

lemma sumLoop_absolute_of_anomaly:
  assumes "sumLoop temps bl idxs (s, c) = Inr (s', c')" "s0 = NaN \<longrightarrow> s = NaN"
  shows "\<exists>s''. sumLoop temps None idxs (s0, c) = Inr (s'', c') \<and> (s'' = NaN \<longrightarrow> s' = NaN)"
  using assms
proof (induction idxs arbitrary: s s0 c)
  case Nil
  then show ?case by simp
next
  case (Cons idx idxs)
  from Cons.prems(1) obtain t where t: "temps = Some t"
    by (cases temps) simp_all
  let ?v = "case bl of Some b \<Rightarrow> Number (js_sub (arr_get t idx) (arr_get b idx))
            | None \<Rightarrow> arr_get t idx"
  from Cons.prems(1) t have 1: "sumLoop temps bl idxs (js_add s ?v, Suc c) = Inr (s', c')"
    by (simp add: Let_def)
  have 2: "js_add s0 (arr_get t idx) = NaN \<longrightarrow> js_add s ?v = NaN"
    using Cons.prems(2)
    by (cases s0; cases s; cases "to_number (arr_get t idx)"; cases bl)
       (auto simp: js_add_def js_sub_def)
  from Cons.IH[OF 1 2] show ?case using t by (simp add: Let_def)
qed

lemma num_div_NaN_iff [simp]: "num_div s n = NaN \<longleftrightarrow> s = NaN"
  by (cases s) simp_all

lemma trendPoint_absolute_of_anomaly:
  assumes "trendPoint env sA idxs k = Inr a"
    and same: "allTemperatureData sB = allTemperatureData sA" "\<not> isAnomalyMode sB"
  shows "\<exists>b. trendPoint env sB idxs k = Inr b \<and> date b = date a \<and> (val b = NaN \<longrightarrow> val a = NaN)"
proof -
  from assms(1) obtain obj s' c' where obj: "allTemperatureData sA = Some obj"
    and sl: "sumLoop (object_get obj k)
       (if isAnomalyMode sA then baselineData sA (month_key k) else None) idxs (Fin 0, 0) = Inr (s', c')"
    and a: "a = \<lparr>date = dateParser env k, val = (if c' > 0 then num_div s' c' else Fin 0), rawDate = k\<rparr>"
    by (auto simp: trendPoint_def Let_def split: option.splits sum.splits)
  from sumLoop_absolute_of_anomaly[OF sl, of "Fin 0"] obtain s'' where
    "sumLoop (object_get obj k) None idxs (Fin 0, 0) = Inr (s'', c')" "s'' = NaN \<longrightarrow> s' = NaN"
    by auto
  then show ?thesis using obj same a by (simp add: trendPoint_def)
qed

lemma map_result_absolute_of_anomaly:
  assumes "map_result (trendPoint env sA idxs) ks = Inr as"
    and same: "allTemperatureData sB = allTemperatureData sA" "\<not> isAnomalyMode sB"
  shows "\<exists>bs. map_result (trendPoint env sB idxs) ks = Inr bs \<and> map date bs = map date as
           \<and> length bs = length as \<and> (list_all (\<lambda>d. val d = NaN) bs \<longrightarrow> list_all (\<lambda>d. val d = NaN) as)"
  using assms(1)
proof (induction ks arbitrary: as)
  case Nil
  then show ?case by simp
next
  case (Cons k ks)
  from Cons.prems obtain a as' where a: "trendPoint env sA idxs k = Inr a"
    and as': "map_result (trendPoint env sA idxs) ks = Inr as'" and eq: "as = a # as'"
    by (auto split: sum.splits)
  from trendPoint_absolute_of_anomaly[OF a same] obtain b where
    b: "trendPoint env sB idxs k = Inr b" "date b = date a" "val b = NaN \<longrightarrow> val a = NaN" by blast
  from Cons.IH[OF as'] obtain bs where
    bs: "map_result (trendPoint env sB idxs) ks = Inr bs" "map date bs = map date as'"
      "length bs = length as'"
      "list_all (\<lambda>d. val d = NaN) bs \<longrightarrow> list_all (\<lambda>d. val d = NaN) as'" by blast
  show ?case using b bs eq by simp
qed

lemma trend_absolute_of_anomaly:
  assumes "calculateCountryTrend env sA f = Inr (Some as)"
    and same: "rawCoords sB = rawCoords sA" "timePoints sB = timePoints sA"
      "allTemperatureData sB = allTemperatureData sA" "\<not> isAnomalyMode sB"
  shows "\<exists>bs. calculateCountryTrend env sB f = Inr (Some bs) \<and> map date bs = map date as
           \<and> length bs = length as \<and> (list_all (\<lambda>d. val d = NaN) bs \<longrightarrow> list_all (\<lambda>d. val d = NaN) as)"
proof -
  from assms(1) obtain cs where cs: "rawCoords sA = Some cs" "cs \<noteq> []"
    "indicesInCountry env f cs \<noteq> []"
    and m: "map_result (trendPoint env sA (indicesInCountry env f cs)) (timePoints sA) = Inr as"
    by (auto simp: calculateCountryTrend_def Let_def split: option.splits if_splits sum.splits)
  from map_result_absolute_of_anomaly[OF m same(3,4)] obtain bs where
    "map_result (trendPoint env sB (indicesInCountry env f cs)) (timePoints sA) = Inr bs"
    "map date bs = map date as" "length bs = length as"
    "list_all (\<lambda>d. val d = NaN) bs \<longrightarrow> list_all (\<lambda>d. val d = NaN) as" by blast
  then show ?thesis using cs same by (simp add: calculateCountryTrend_def)
qed

subsection \<open>Refreshing the sidebar\<close>

lemma refreshItem_no_feature:
  "featureData it = None \<Longrightarrow> refreshItem env s it = Done it"
  by (simp add: refreshItem_def)

lemma refreshItem_keeps:
  "featureData (final (refreshItem env s it)) = featureData it"
  by (auto simp: refreshItem_def Let_def updateCountryStats_def drawDetailedChart_def
      split: option.splits sum.splits outcome.splits)

lemma refreshItem_completed:
  assumes "featureData it = Some f"
  shows "completed (refreshItem env s it) \<longleftrightarrow>
           (case calculateCountryTrend env s f of Inl e \<Rightarrow> False | Inr td \<Rightarrow> chartable td)"
  using assms
  by (auto simp: refreshItem_def Let_def updateCountryStats_def drawDetailedChart_def chartable_def
      split: option.splits sum.splits outcome.splits)

lemma refreshItem_chart:
  assumes "featureData it = Some f"
  shows "completed (refreshItem env s it) \<Longrightarrow>
           \<exists>ds. calculateCountryTrend env s f = Inr (Some ds)
              \<and> chartMeta (final (refreshItem env s it)) = Some ds
              \<and> (ds \<noteq> [] \<longrightarrow> statsData (final (refreshItem env s it)) = Some ds)"
    and "\<not> completed (refreshItem env s it) \<Longrightarrow>
           chartMeta (final (refreshItem env s it)) = chartMeta it"
  using assms
  by (auto simp: refreshItem_def Let_def updateCountryStats_def drawDetailedChart_def
      split: option.splits sum.splits outcome.splits if_splits)

lemma chartable_absolute_of_anomaly:
  assumes "calculateCountryTrend env sA f = Inr ta" "chartable ta"
    and same: "rawCoords sB = rawCoords sA" "timePoints sB = timePoints sA"
      "allTemperatureData sB = allTemperatureData sA" "\<not> isAnomalyMode sB"
  shows "\<exists>tb. calculateCountryTrend env sB f = Inr tb \<and> chartable tb"
proof -
  from assms(2) obtain as where ta: "ta = Some as" by (cases ta) (simp_all add: chartable_def)
  from trend_absolute_of_anomaly[OF assms(1)[unfolded ta] same] obtain bs where
    bs: "calculateCountryTrend env sB f = Inr (Some bs)" "map date bs = map date as"
      "length bs = length as"
      "list_all (\<lambda>d. val d = NaN) bs \<longrightarrow> list_all (\<lambda>d. val d = NaN) as" by blast
  have "list_ex (\<lambda>d. date d = None) bs \<longleftrightarrow> list_ex (\<lambda>d. date d = None) as"
  proof -
    have "list_ex (\<lambda>d. date d = None) bs \<longleftrightarrow> None \<in> set (map date bs)"
      by (force simp: list_ex_iff)
    also have "\<dots> \<longleftrightarrow> None \<in> set (map date as)" by (simp only: bs(2))
    also have "\<dots> \<longleftrightarrow> list_ex (\<lambda>d. date d = None) as"
      by (force simp: list_ex_iff)
    finally show ?thesis .
  qed
  with assms(2) bs show ?thesis by (auto simp: chartable_def ta)
qed

lemma forEach_final:
  "final (forEach_outcome g (x # xs)) =
     (if completed (g x) then final (g x) # final (forEach_outcome g xs) else final (g x) # xs)"
  by (cases "g x"; cases "forEach_outcome g xs") simp_all

lemma forEach_completed:
  "completed (forEach_outcome g xs) \<longleftrightarrow> (\<forall>x\<in>set xs. completed (g x))"
proof (induction xs)
  case Nil
  then show ?case by simp
next
  case (Cons x xs)
  then show ?case by (cases "g x"; cases "forEach_outcome g xs") simp_all
qed

lemma forEach_completed_map:
  "completed (forEach_outcome g xs) \<Longrightarrow> final (forEach_outcome g xs) = map (\<lambda>x. final (g x)) xs"
proof (induction xs)
  case Nil
  then show ?case by simp
next
  case (Cons x xs)
  then show ?case by (cases "g x"; cases "forEach_outcome g xs") simp_all
qed

lemma same_chart_refl: "same_chart x x"
  by (simp add: same_chart_def)

lemma same_chart_syncItem: "same_chart x (syncItem i x)"
  by (simp add: same_chart_def syncItem_def split: option.splits)

lemma renderHeatmap_sidebar:
  "list_all2 same_chart (sidebar st) (sidebar (final (renderHeatmap st i)))"
proof -
  have "sidebar (final (renderHeatmap st i)) = sidebar st
      \<or> sidebar (final (renderHeatmap st i)) = map (syncItem i) (sidebar st)"
    by (simp add: renderHeatmap_def Let_def updateChartsSync_def split: option.splits sum.splits)
  then show ?thesis
    by (auto simp: list_all2_same same_chart_refl list_all2_map2 same_chart_syncItem)
qed

lemma toggle_sidebar:
  "list_all2 same_chart
     (final (forEach_outcome (refreshItem env (st\<lparr>isAnomalyMode := b,
                   currentColorScale := (if b then anomalyColorScale else absoluteColorScale),
                   legendAnomaly := b\<rparr>)) (sidebar st)))
     (sidebar (final (toggleAnomalyMode env b st)))"
proof (cases "forEach_outcome (refreshItem env (st\<lparr>isAnomalyMode := b,
                   currentColorScale := (if b then anomalyColorScale else absoluteColorScale),
                   legendAnomaly := b\<rparr>)) (sidebar st)")
  case (Done items)
  have "list_all2 same_chart items
     (sidebar (final (renderHeatmap (st\<lparr>isAnomalyMode := b,
                   currentColorScale := (if b then anomalyColorScale else absoluteColorScale),
                   legendAnomaly := b, sidebar := items\<rparr>) (sliderValue st))))"
    using renderHeatmap_sidebar[of "st\<lparr>isAnomalyMode := b,
                   currentColorScale := (if b then anomalyColorScale else absoluteColorScale),
                   legendAnomaly := b, sidebar := items\<rparr>" "sliderValue st"]
    by simp
  then show ?thesis using Done by (simp add: toggle_final)
next
  case (Thrown e items)
  then show ?thesis by (simp add: toggle_final list_all2_same same_chart_refl)
qed

lemma toggle_completed_forEach:
  assumes "completed (toggleAnomalyMode env b st)"
  shows "completed (forEach_outcome (refreshItem env (st\<lparr>isAnomalyMode := b,
                   currentColorScale := (if b then anomalyColorScale else absoluteColorScale),
                   legendAnomaly := b\<rparr>)) (sidebar st))"
  using assms by (auto simp: toggleAnomalyMode_def Let_def split: outcome.splits)

lemma toggle_trend:
  "calculateCountryTrend env (st\<lparr>isAnomalyMode := b,
                   currentColorScale := c, legendAnomaly := l\<rparr>) f =
   calculateCountryTrend env (final (toggleAnomalyMode env b st)) f"
  by (rule trend_cong) (simp_all add: toggle_fields)

text \<open>One pass and two passes over a list, element by element.\<close>

lemma forEach_one_pass_from:
  assumes "\<And>x y. E x y \<Longrightarrow> R x y" "\<And>x y. E x y \<Longrightarrow> R x (final (g y))"
    and "list_all2 E xs ys"
  shows "list_all2 R xs (final (forEach_outcome g ys))"
  using assms(3)
proof (induction xs ys rule: list_all2_induct)
  case Nil
  then show ?case by simp
next
  case (Cons x xs y ys)
  have "list_all2 R xs ys"
    using Cons.hyps(2) assms(1) by (rule list_all2_mono)
  with Cons assms(2) show ?case by (simp add: forEach_final del: forEach_outcome.simps)
qed

lemma forEach_two_passes_from:
  assumes untouched: "\<And>x y. E x y \<Longrightarrow> R x y"
    and second: "\<And>x y. E x y \<Longrightarrow> R x (final (g2 y))"
    and thrown: "\<And>x y. \<not> completed (g1 x) \<Longrightarrow> E (final (g1 x)) y \<Longrightarrow> R x y \<and> R x (final (g2 y))"
    and both: "\<And>x y. completed (g1 x) \<Longrightarrow> E (final (g1 x)) y \<Longrightarrow>
        completed (g2 y) \<and> R x (final (g2 y))"
    and ys: "list_all2 E (final (forEach_outcome g1 xs)) ys"
  shows "list_all2 R xs (final (forEach_outcome g2 ys))"
  using ys
proof (induction xs arbitrary: ys)
  case Nil
  then show ?case by simp
next
  case (Cons x xs)
  show ?case
  proof (cases "completed (g1 x)")
    case True
    with Cons.prems obtain y ys' where ys: "ys = y # ys'" "E (final (g1 x)) y"
      "list_all2 E (final (forEach_outcome g1 xs)) ys'"
      by (auto simp: forEach_final list_all2_Cons1 simp del: forEach_outcome.simps)
    from both[OF True ys(2)] Cons.IH[OF ys(3)] show ?thesis
      by (simp add: ys(1) forEach_final del: forEach_outcome.simps)
  next
    case False
    with Cons.prems obtain y ys' where ys: "ys = y # ys'" "E (final (g1 x)) y"
      "list_all2 E xs ys'"
      by (auto simp: forEach_final list_all2_Cons1 simp del: forEach_outcome.simps)
    have a: "list_all2 R xs ys'" using ys(3) untouched by (rule list_all2_mono)
    have b: "list_all2 R xs (final (forEach_outcome g2 ys'))"
      using untouched second ys(3) by (rule forEach_one_pass_from)
    from thrown[OF False ys(2)] a b show ?thesis
      by (simp add: ys(1) forEach_final del: forEach_outcome.simps)
  qed
qed

lemma refresh_absolute_or_kept:
  assumes "same_chart x y" "calculateCountryTrend env s = calculateCountryTrend env st"
  shows "absolute_or_kept env st x (final (refreshItem env s y))"
proof (cases "featureData y")
  case None
  then show ?thesis using assms(1)
    by (simp add: refreshItem_no_feature absolute_or_kept_def same_chart_def)
next
  case (Some f)
  show ?thesis
  proof (cases "completed (refreshItem env s y)")
    case True
    from refreshItem_chart(1)[OF Some True] obtain ds where
      "calculateCountryTrend env s f = Inr (Some ds)"
      "chartMeta (final (refreshItem env s y)) = Some ds" by blast
    then show ?thesis using assms Some
      by (auto simp: absolute_or_kept_def same_chart_def refreshItem_keeps)
  next
    case False
    from refreshItem_chart(2)[OF Some False] show ?thesis using assms(1)
      by (simp add: absolute_or_kept_def same_chart_def refreshItem_keeps)
  qed
qed

lemma roundtrip_sidebar:
  assumes absolute: "\<not> isAnomalyMode st"
  shows "list_all2 (absolute_or_kept env st) (sidebar st)
     (sidebar (final (toggleAnomalyMode env False (final (toggleAnomalyMode env True st)))))"
proof -
  let ?m1 = "final (toggleAnomalyMode env True st)"
  let ?m2 = "final (toggleAnomalyMode env False ?m1)"
  let ?sA = "st\<lparr>isAnomalyMode := True, currentColorScale := anomalyColorScale,
      legendAnomaly := True\<rparr>"
  let ?sB = "?m1\<lparr>isAnomalyMode := False, currentColorScale := absoluteColorScale,
      legendAnomaly := False\<rparr>"
  have tB: "calculateCountryTrend env ?sB = calculateCountryTrend env st"
    using absolute by (intro ext trend_cong) (simp_all add: toggle_fields)
  have sameAB: "rawCoords ?sB = rawCoords ?sA" "timePoints ?sB = timePoints ?sA"
    "allTemperatureData ?sB = allTemperatureData ?sA" "\<not> isAnomalyMode ?sB"
    by (simp_all add: toggle_fields)
  have mid: "list_all2 same_chart (final (forEach_outcome (refreshItem env ?sA) (sidebar st)))
      (sidebar ?m1)"
    using toggle_sidebar[where env = env and st = st and b = True] by simp
  have pass: "list_all2 (absolute_or_kept env st) (sidebar st)
      (final (forEach_outcome (refreshItem env ?sB) (sidebar ?m1)))"
  proof (rule forEach_two_passes_from[where E = same_chart and ?g1.0 = "refreshItem env ?sA", OF _ _ _ _ mid])
    fix x y :: "('a, 'b) sidebar_item"
    assume "same_chart x y"
    then show "absolute_or_kept env st x y"
      by (simp add: absolute_or_kept_def same_chart_def)
  next
    fix x y :: "('a, 'b) sidebar_item"
    assume "same_chart x y"
    then show "absolute_or_kept env st x (final (refreshItem env ?sB y))"
      using tB by (rule refresh_absolute_or_kept)
  next
    fix x y :: "('a, 'b) sidebar_item"
    assume t: "\<not> completed (refreshItem env ?sA x)"
      and e: "same_chart (final (refreshItem env ?sA x)) y"
    from t obtain f where f: "featureData x = Some f"
      by (cases "featureData x") (simp_all add: refreshItem_no_feature)
    from refreshItem_chart(2)[OF f t] e have xy: "same_chart (x\<lparr>statsData := statsData y\<rparr>) y"
      by (simp add: same_chart_def refreshItem_keeps)
    then have 1: "absolute_or_kept env st x y"
      by (simp add: absolute_or_kept_def same_chart_def)
    from refresh_absolute_or_kept[OF xy tB]
    have 2: "absolute_or_kept env st x (final (refreshItem env ?sB y))"
      by (simp add: absolute_or_kept_def)
    from 1 2 show "absolute_or_kept env st x y \<and>
        absolute_or_kept env st x (final (refreshItem env ?sB y))" ..
  next
    fix x y :: "('a, 'b) sidebar_item"
    assume c: "completed (refreshItem env ?sA x)"
      and e: "same_chart (final (refreshItem env ?sA x)) y"
    from e have fy: "featureData y = featureData x"
      by (simp add: same_chart_def refreshItem_keeps)
    show "completed (refreshItem env ?sB y) \<and>
        absolute_or_kept env st x (final (refreshItem env ?sB y))"
    proof (cases "featureData x")
      case None
      with e fy show ?thesis
        by (simp add: refreshItem_no_feature absolute_or_kept_def same_chart_def)
    next
      case (Some f)
      from c obtain ta where ta: "calculateCountryTrend env ?sA f = Inr ta" "chartable ta"
        unfolding refreshItem_completed[OF Some] by (auto split: sum.splits)
      from chartable_absolute_of_anomaly[OF ta sameAB] obtain tb where
        tb: "calculateCountryTrend env ?sB f = Inr tb" "chartable tb" by blast
      have fy': "featureData y = Some f" using fy Some by simp
      have cy: "completed (refreshItem env ?sB y)"
        unfolding refreshItem_completed[OF fy'] using tb by simp
      from refreshItem_chart(1)[OF fy' cy] obtain ds where
        "calculateCountryTrend env ?sB f = Inr (Some ds)"
        "chartMeta (final (refreshItem env ?sB y)) = Some ds" by blast
      then have "absolute_or_kept env st x (final (refreshItem env ?sB y))"
        using Some fy tB by (auto simp: absolute_or_kept_def refreshItem_keeps)
      with cy show ?thesis ..
    qed
  qed
  have last: "list_all2 same_chart (final (forEach_outcome (refreshItem env ?sB) (sidebar ?m1)))
      (sidebar ?m2)"
    using toggle_sidebar[where env = env and st = ?m1 and b = False] by simp
  have comp: "absolute_or_kept env st x z"
    if "absolute_or_kept env st x y" "same_chart y z" for x y z
    using that by (auto simp: absolute_or_kept_def same_chart_def)
  show ?thesis
    using pass last by (rule list_all2_trans[rotated]) (rule comp)
qed

lemma list_all2_same_chart_fields:
  assumes "list_all2 same_chart xs ys"
  shows "map featureData ys = map featureData xs" "map chartMeta ys = map chartMeta xs"
    "map statsData ys = map statsData xs"
  using assms by (induction rule: list_all2_induct) (simp_all add: same_chart_def)

lemma toggle_completed_charts:
  assumes c: "completed (toggleAnomalyMode env b st)"
    and it: "it \<in> set (sidebar (final (toggleAnomalyMode env b st)))" "featureData it = Some f"
  shows "\<exists>ds. chartMeta it = Some ds \<and> (ds \<noteq> [] \<longrightarrow> statsData it = Some ds)
           \<and> calculateCountryTrend env (final (toggleAnomalyMode env b st)) f = Inr (Some ds)"
proof -
  let ?s = "st\<lparr>isAnomalyMode := b,
                   currentColorScale := (if b then anomalyColorScale else absoluteColorScale),
                   legendAnomaly := b\<rparr>"
  let ?xs = "final (forEach_outcome (refreshItem env ?s) (sidebar st))"
  have all: "\<forall>x\<in>set (sidebar st). completed (refreshItem env ?s x)"
    using toggle_completed_forEach[OF c] by (simp add: forEach_completed)
  have xs: "?xs = map (\<lambda>x. final (refreshItem env ?s x)) (sidebar st)"
    using toggle_completed_forEach[OF c] by (rule forEach_completed_map)
  have l: "list_all2 same_chart ?xs (sidebar (final (toggleAnomalyMode env b st)))"
    by (rule toggle_sidebar)
  from it(1) obtain i where i: "i < length (sidebar (final (toggleAnomalyMode env b st)))"
    "sidebar (final (toggleAnomalyMode env b st)) ! i = it"
    by (auto simp: in_set_conv_nth)
  from l i have len: "i < length (sidebar st)" and sc: "same_chart (?xs ! i) it"
    by (auto simp: list_all2_conv_all_nth xs)
  let ?x = "sidebar st ! i"
  have xi: "?xs ! i = final (refreshItem env ?s ?x)" using len by (simp add: xs)
  have fx: "featureData ?x = Some f"
    using sc it(2) by (simp add: xi same_chart_def refreshItem_keeps)
  have cx: "completed (refreshItem env ?s ?x)" using all len by simp
  from refreshItem_chart(1)[OF fx cx] obtain ds where
    ds: "calculateCountryTrend env ?s f = Inr (Some ds)"
    "chartMeta (final (refreshItem env ?s ?x)) = Some ds"
    "ds \<noteq> [] \<longrightarrow> statsData (final (refreshItem env ?s ?x)) = Some ds" by blast
  have "calculateCountryTrend env (final (toggleAnomalyMode env b st)) f = Inr (Some ds)"
    using ds(1) toggle_trend[of env b "if b then anomalyColorScale else absoluteColorScale" b st f]
    by simp
  with ds sc show ?thesis by (auto simp: xi same_chart_def)
qed

text \<open>
  The round trip of the mode. From a state in absolute mode whose drawn series are the
  absolute ones, switching anomaly mode on and off again gives back the colour scale
  and the mode, keeps the list of countries, and leaves every drawn series the absolute
  one, the series drawn before unchanged; this holds also when a toggle throws. A toggle
  that runs to its end has recomputed the series and the statistics of every country
  of the list in its mode.
\<close>

theorem toggle_roundtrip_restores:
  assumes absolute: "\<not> isAnomalyMode st" "currentColorScale st = absoluteColorScale"
    and charts: "\<forall>it\<in>set (sidebar st). \<forall>f ds. featureData it = Some f \<longrightarrow> chartMeta it = Some ds
          \<longrightarrow> calculateCountryTrend env st f = Inr (Some ds)"
    and toggled: "toggled = final (toggleAnomalyMode env True st)"
    and restored: "restored = final (toggleAnomalyMode env False toggled)"
  shows "currentColorScale toggled = anomalyColorScale \<and> isAnomalyMode toggled
     \<and> currentColorScale restored = currentColorScale st \<and> isAnomalyMode restored = isAnomalyMode st
     \<and> map featureData (sidebar restored) = map featureData (sidebar st)
     \<and> (\<forall>it\<in>set (sidebar restored). \<forall>f ds. featureData it = Some f \<longrightarrow> chartMeta it = Some ds
          \<longrightarrow> calculateCountryTrend env restored f = Inr (Some ds))
     \<and> (\<forall>i<length (sidebar st). chartMeta (sidebar st ! i) \<noteq> None \<longrightarrow>
           chartMeta (sidebar restored ! i) = chartMeta (sidebar st ! i))
     \<and> (completed (toggleAnomalyMode env True st) \<longrightarrow>
           (\<forall>it\<in>set (sidebar toggled). \<forall>f. featureData it = Some f \<longrightarrow>
              (\<exists>ds. chartMeta it = Some ds \<and> (ds \<noteq> [] \<longrightarrow> statsData it = Some ds)
                  \<and> calculateCountryTrend env toggled f = Inr (Some ds))))
     \<and> (completed (toggleAnomalyMode env False toggled) \<longrightarrow>
           (\<forall>it\<in>set (sidebar restored). \<forall>f. featureData it = Some f \<longrightarrow>
              (\<exists>ds. chartMeta it = Some ds \<and> (ds \<noteq> [] \<longrightarrow> statsData it = Some ds)
                  \<and> calculateCountryTrend env restored f = Inr (Some ds))))"
proof -
  have scales: "currentColorScale toggled = anomalyColorScale \<and> isAnomalyMode toggled
     \<and> currentColorScale restored = currentColorScale st \<and> isAnomalyMode restored = isAnomalyMode st"
    using absolute by (simp add: toggled restored toggle_fields)
  have tr: "calculateCountryTrend env restored = calculateCountryTrend env st"
    using absolute(1) by (intro ext trend_cong) (simp_all add: toggled restored toggle_fields)
  have rel: "list_all2 (absolute_or_kept env st) (sidebar st) (sidebar restored)"
    unfolding restored toggled using absolute(1) by (rule roundtrip_sidebar)
  then have len: "length (sidebar restored) = length (sidebar st)"
    by (simp add: list_all2_lengthD)
  have nth: "absolute_or_kept env st (sidebar st ! i) (sidebar restored ! i)" if "i < length (sidebar st)" for i
    using rel that by (simp add: list_all2_conv_all_nth)
  have feats: "map featureData (sidebar restored) = map featureData (sidebar st)"
    using rel by (induction rule: list_all2_induct) (simp_all add: absolute_or_kept_def)
  have drawn: "calculateCountryTrend env restored f = Inr (Some ds)"
    if "it \<in> set (sidebar restored)" "featureData it = Some f" "chartMeta it = Some ds" for it f ds
  proof -
    from that(1) len obtain i where i: "i < length (sidebar st)" "sidebar restored ! i = it"
      by (auto simp: in_set_conv_nth)
    from nth[OF i(1)] that(2,3) i(2) charts i(1) show ?thesis
      unfolding tr absolute_or_kept_def by (metis nth_mem option.inject)
  qed
  have kept: "chartMeta (sidebar restored ! i) = chartMeta (sidebar st ! i)"
    if "i < length (sidebar st)" "chartMeta (sidebar st ! i) \<noteq> None" for i
  proof -
    from nth[OF that(1)] that charts show ?thesis
      unfolding absolute_or_kept_def
      by (metis nth_mem not_None_eq option.inject sum.inject(2))
  qed
  have first: "\<exists>ds. chartMeta it = Some ds \<and> (ds \<noteq> [] \<longrightarrow> statsData it = Some ds)
                  \<and> calculateCountryTrend env toggled f = Inr (Some ds)"
    if "completed (toggleAnomalyMode env True st)" "it \<in> set (sidebar toggled)" "featureData it = Some f"
    for it f
    using toggle_completed_charts[OF that(1), of it f] that(2,3) by (simp add: toggled)
  have second: "\<exists>ds. chartMeta it = Some ds \<and> (ds \<noteq> [] \<longrightarrow> statsData it = Some ds)
                  \<and> calculateCountryTrend env restored f = Inr (Some ds)"
    if "completed (toggleAnomalyMode env False toggled)" "it \<in> set (sidebar restored)" "featureData it = Some f"
    for it f
    using toggle_completed_charts[OF that(1), of it f] that(2,3) by (simp add: restored)
  from scales feats drawn kept first second show ?thesis by blast
qed

lemma timed_split:
  "split_on CHR ''-'' ''2015-01-01 00:00:00'' = [''2015'', ''01'', ''01 00:00:00'']"
  "split_on CHR ''-'' ''2016-01-01 00:00:00'' = [''2016'', ''01'', ''01 00:00:00'']"
  by simp_all

lemma timed_fields:
  "rawCoords (loadTemperatureData env timed_payload sInit) = Some [(0, 0), (10, 10)]"
  "timePoints (loadTemperatureData env timed_payload sInit) =
     [''2015-01-01 00:00:00'', ''2016-01-01 00:00:00'']"
  "allTemperatureData (loadTemperatureData env timed_payload sInit) =
     Some [(''2015-01-01 00:00:00'', Some [Number (Fin 280), Number (Fin 290)]),
           (''2016-01-01 00:00:00'', Some [Number (Fin 282), Number (Fin 285)])]"
  "baselineData (loadTemperatureData env timed_payload sInit) ''01'' =
     Some [Number (Fin 280), Number (Fin 290)]"
  "isAnomalyMode (loadTemperatureData env timed_payload sInit) = isAnomalyMode sInit"
  "currentColorScale (loadTemperatureData env timed_payload sInit) = currentColorScale sInit"
proof -
  have c: "coords timed_payload = Some [(0, 0), (10, 10)]"
    and t: "payloadTemperatures timed_payload =
      Some [(''2015-01-01 00:00:00'', Some [Number (Fin 280), Number (Fin 290)]),
            (''2016-01-01 00:00:00'', Some [Number (Fin 282), Number (Fin 285)])]"
    by (simp_all add: timed_payload_def payloadTemperatures_def)
  note flds = load_data_fields[OF c t, of env sInit]
  show "rawCoords (loadTemperatureData env timed_payload sInit) = Some [(0, 0), (10, 10)]"
    by (simp add: flds)
  show "timePoints (loadTemperatureData env timed_payload sInit) =
     [''2015-01-01 00:00:00'', ''2016-01-01 00:00:00'']"
    by (simp add: flds object_keys_def)
  show "allTemperatureData (loadTemperatureData env timed_payload sInit) =
     Some [(''2015-01-01 00:00:00'', Some [Number (Fin 280), Number (Fin 290)]),
           (''2016-01-01 00:00:00'', Some [Number (Fin 282), Number (Fin 285)])]"
    by (simp add: flds)
  show "baselineData (loadTemperatureData env timed_payload sInit) ''01'' =
     Some [Number (Fin 280), Number (Fin 290)]"
    by (simp add: flds object_keys_def baselineStep_def startsWith_def object_get_def timed_split)
  show "isAnomalyMode (loadTemperatureData env timed_payload sInit) = isAnomalyMode sInit"
    "currentColorScale (loadTemperatureData env timed_payload sInit) = currentColorScale sInit"
    by (simp_all add: flds)
qed

lemma timed_trend:
  assumes "rawCoords s = Some [(0, 0), (10, 10)]"
    "timePoints s = [''2015-01-01 00:00:00'', ''2016-01-01 00:00:00'']"
    "allTemperatureData s =
       Some [(''2015-01-01 00:00:00'', Some [Number (Fin 280), Number (Fin 290)]),
             (''2016-01-01 00:00:00'', Some [Number (Fin 282), Number (Fin 285)])]"
    "baselineData s ''01'' = Some [Number (Fin 280), Number (Fin 290)]"
  shows "calculateCountryTrend box_d3 s (box_country ''A'' ((-1, -1), (1, 1))) =
     Inr (Some [\<lparr>date = Some ''2015-01-01 00:00:00'',
                  val = (if isAnomalyMode s then Fin 0 else Fin 280),
                  rawDate = ''2015-01-01 00:00:00''\<rparr>,
                \<lparr>date = Some ''2016-01-01 00:00:00'',
                  val = (if isAnomalyMode s then Fin 2 else Fin 282),
                  rawDate = ''2016-01-01 00:00:00''\<rparr>])"
  using assms
  by (simp add: calculateCountryTrend_def trendPoint_def example_indices[OF box_contains]
      object_get_def month_key_def timed_split arr_get_def js_sub_def js_add_def box_dateParser)

theorem toggle_roundtrip_restores_example:
  "map chartMeta (sidebar (final (toggleAnomalyMode box_d3 True
       ((loadTemperatureData box_d3 timed_payload (initial_state []))\<lparr>sidebar := [drawn_item]\<rparr>)))) =
     [Some [\<lparr>date = Some ''2015-01-01 00:00:00'', val = Fin 0, rawDate = ''2015-01-01 00:00:00''\<rparr>,
            \<lparr>date = Some ''2016-01-01 00:00:00'', val = Fin 2, rawDate = ''2016-01-01 00:00:00''\<rparr>]]
   \<and> currentColorScale (final (toggleAnomalyMode box_d3 True
       ((loadTemperatureData box_d3 timed_payload (initial_state []))\<lparr>sidebar := [drawn_item]\<rparr>))) =
     anomalyColorScale
   \<and> map chartMeta (sidebar (final (toggleAnomalyMode box_d3 False (final (toggleAnomalyMode box_d3 True
       ((loadTemperatureData box_d3 timed_payload (initial_state []))\<lparr>sidebar := [drawn_item]\<rparr>)))))) =
     [chartMeta drawn_item]
   \<and> currentColorScale (final (toggleAnomalyMode box_d3 False (final (toggleAnomalyMode box_d3 True
       ((loadTemperatureData box_d3 timed_payload (initial_state []))\<lparr>sidebar := [drawn_item]\<rparr>))))) =
     absoluteColorScale"
proof -
  let ?f = "box_country ''A'' ((-1, -1), (1, 1)) :: box feature"
  let ?st = "(loadTemperatureData box_d3 timed_payload (initial_state []))\<lparr>sidebar := [drawn_item]\<rparr>
     :: (box, string) app_state"
  let ?t = "final (toggleAnomalyMode box_d3 True ?st)"
  let ?r = "final (toggleAnomalyMode box_d3 False ?t)"
  let ?sA = "?st\<lparr>isAnomalyMode := True, currentColorScale := anomalyColorScale,
      legendAnomaly := True\<rparr>"
  have item: "featureData drawn_item = Some ?f"
    "chartMeta drawn_item =
       Some [\<lparr>date = Some ''2015-01-01 00:00:00'', val = Fin 280, rawDate = ''2015-01-01 00:00:00''\<rparr>,
             \<lparr>date = Some ''2016-01-01 00:00:00'', val = Fin 282, rawDate = ''2016-01-01 00:00:00''\<rparr>]"
    by (simp_all add: drawn_item_def newItem_def)
  have h1: "\<not> isAnomalyMode ?st" by (simp add: timed_fields initial_state_def)
  have h2: "currentColorScale ?st = absoluteColorScale"
    by (simp add: timed_fields initial_state_def)
  have tr: "calculateCountryTrend box_d3 ?st ?f = Inr (chartMeta drawn_item)"
    using h1 by (simp add: timed_trend timed_fields item(2))
  have h3: "\<forall>it\<in>set (sidebar ?st). \<forall>f ds. featureData it = Some f \<longrightarrow> chartMeta it = Some ds
          \<longrightarrow> calculateCountryTrend box_d3 ?st f = Inr (Some ds)"
    using tr by (simp add: item(1))
  note c7 = toggle_roundtrip_restores[OF h1 h2 h3 refl refl]
  have trA: "calculateCountryTrend box_d3 ?sA ?f =
     Inr (Some [\<lparr>date = Some ''2015-01-01 00:00:00'', val = Fin 0, rawDate = ''2015-01-01 00:00:00''\<rparr>,
            \<lparr>date = Some ''2016-01-01 00:00:00'', val = Fin 2, rawDate = ''2016-01-01 00:00:00''\<rparr>])"
    by (simp add: timed_trend timed_fields)
  have "map chartMeta (final (forEach_outcome (refreshItem box_d3 ?sA) (sidebar ?st))) =
     [Some [\<lparr>date = Some ''2015-01-01 00:00:00'', val = Fin 0, rawDate = ''2015-01-01 00:00:00''\<rparr>,
            \<lparr>date = Some ''2016-01-01 00:00:00'', val = Fin 2, rawDate = ''2016-01-01 00:00:00''\<rparr>]]"
    by (simp add: refreshItem_def item(1) trA updateCountryStats_def drawDetailedChart_def)
  moreover have "map chartMeta (sidebar ?t) =
      map chartMeta (final (forEach_outcome (refreshItem box_d3 ?sA) (sidebar ?st)))"
    using list_all2_same_chart_fields(2)[OF toggle_sidebar[where env = box_d3 and st = ?st and b = True]]
    by simp
  ultimately have a: "map chartMeta (sidebar ?t) =
     [Some [\<lparr>date = Some ''2015-01-01 00:00:00'', val = Fin 0, rawDate = ''2015-01-01 00:00:00''\<rparr>,
            \<lparr>date = Some ''2016-01-01 00:00:00'', val = Fin 2, rawDate = ''2016-01-01 00:00:00''\<rparr>]]"
    by simp
  from c7 have b: "currentColorScale ?t = anomalyColorScale" by blast
  from c7 h2 have c: "currentColorScale ?r = absoluteColorScale" by simp
  from c7 have "map featureData (sidebar ?r) = map featureData (sidebar ?st)" by blast
  then obtain z where z: "sidebar ?r = [z]" by (auto simp: map_eq_Cons_conv)
  from c7 have "\<forall>i<length (sidebar ?st). chartMeta (sidebar ?st ! i) \<noteq> None \<longrightarrow>
           chartMeta (sidebar ?r ! i) = chartMeta (sidebar ?st ! i)" by blast
  then have "chartMeta (sidebar ?r ! 0) = chartMeta drawn_item"
    by (simp add: item(2))
  with z have d: "map chartMeta (sidebar ?r) = [chartMeta drawn_item]" by simp
  from a b c d show ?thesis by simp
qed

subsection \<open>A country without data in the list\<close>

lemma selection_fields:
  "rawCoords (handleClick f st) = rawCoords st"
  "timePoints (handleClick f st) = timePoints st"
  "allTemperatureData (handleClick f st) = allTemperatureData st"
  "baselineData (handleClick f st) = baselineData st"
  "isAnomalyMode (handleClick f st) = isAnomalyMode st"
  "currentColorScale (handleClick f st) = currentColorScale st"
  "sliderValue (handleClick f st) = sliderValue st"
  "heatmapCircles (handleClick f st) = heatmapCircles st"
  "rawCoords (deferredDraw env st) = rawCoords st"
  "allTemperatureData (deferredDraw env st) = allTemperatureData st"
  "baselineData (deferredDraw env st) = baselineData st"
  "isAnomalyMode (deferredDraw env st) = isAnomalyMode st"
  "currentColorScale (deferredDraw env st) = currentColorScale st"
  "heatmapCircles (deferredDraw env st) = heatmapCircles st"
  by (simp_all add: handleClick_def Let_def updateBorderStyle_def removeFromSelectionList_def
      addToSelectionList_def deferredDraw_def updateChartsSync_def split: list.splits prod.splits)

lemma box_ids:
  "getCountryId (box_country n b) = (if n = [] then ''unknown'' else n)"
  by (simp add: getCountryId_def box_country_def truthy_def)

lemma box_far: "\<not> geoContains box_d3 (box_country n ((20, 20), (30, 30))) (0, 0)"
  "\<not> geoContains box_d3 (box_country n ((20, 20), (30, 30))) (10, 10)"
  by (simp_all add: box_d3_def box_country_def)

lemma scenario_data:
  "rawCoords no_data_scenario = Some [(0, 0), (10, 10)]"
  "timePoints no_data_scenario = [''2015-01-01 00:00:00'', ''2016-01-01 00:00:00'']"
  "allTemperatureData no_data_scenario =
     Some [(''2015-01-01 00:00:00'', Some [Number (Fin 280), Number (Fin 290)]),
           (''2016-01-01 00:00:00'', Some [Number (Fin 282), Number (Fin 285)])]"
  "baselineData no_data_scenario ''01'' = Some [Number (Fin 280), Number (Fin 290)]"
  "isAnomalyMode no_data_scenario = False"
  "currentColorScale no_data_scenario = absoluteColorScale"
  by (simp_all add: no_data_scenario_def selection_fields deferredDraw_fields timed_fields
      initial_state_def)

lemma renderHeatmap_misc:
  "pendingDraws (final (renderHeatmap st i)) = pendingDraws st"
  "nextItemKey (final (renderHeatmap st i)) = nextItemKey st"
  "sidebar st = [] \<Longrightarrow> sidebar (final (renderHeatmap st i)) = []"
  by (simp_all add: renderHeatmap_def Let_def updateChartsSync_def split: option.splits sum.splits)

lemma load_misc:
  "pendingDraws (loadTemperatureData env pd st) = pendingDraws st"
  "nextItemKey (loadTemperatureData env pd st) = nextItemKey st"
  "sidebar st = [] \<Longrightarrow> sidebar (loadTemperatureData env pd st) = []"
proof -
  obtain td where td: "loadTemperatureData env pd st = (final (loadBody env pd st))\<lparr>timeDisplay := td\<rparr>"
    using final_load by blast
  show "pendingDraws (loadTemperatureData env pd st) = pendingDraws st"
    "nextItemKey (loadTemperatureData env pd st) = nextItemKey st"
    unfolding td
    by (simp_all add: loadBody_def Let_def renderHeatmap_misc renderHeatmap_fields setupControls_def
        split: option.splits)
  show "sidebar st = [] \<Longrightarrow> sidebar (loadTemperatureData env pd st) = []"
    unfolding td
    by (simp add: loadBody_def Let_def renderHeatmap_misc setupControls_def split: option.splits)
qed

lemma initial_fields:
  "sidebar (initial_state feats) = []" "pendingDraws (initial_state feats) = []"
  "nextItemKey (initial_state feats) = 0" "revealedCountries (initial_state feats) = {}"
  by (simp_all add: initial_state_def)

lemma timed_slider: "sliderValue (loadTemperatureData env timed_payload sInit) = 0"
proof -
  have c: "coords timed_payload = Some [(0, 0), (10, 10)]"
    and t: "payloadTemperatures timed_payload =
      Some [(''2015-01-01 00:00:00'', Some [Number (Fin 280), Number (Fin 290)]),
            (''2016-01-01 00:00:00'', Some [Number (Fin 282), Number (Fin 285)])]"
    by (simp_all add: timed_payload_def payloadTemperatures_def)
  show ?thesis by (rule load_control_fields(2)[OF c t])
qed

lemma far_trend:
  assumes "rawCoords s = Some [(0, 0), (10, 10)]"
  shows "calculateCountryTrend box_d3 s (box_country ''B'' ((20, 20), (30, 30))) = Inr None"
  using assms by (simp add: calculateCountryTrend_def indicesInCountry_def box_far upt_rec)

lemma scenario_sidebar:
  "sidebar no_data_scenario =
     [(newItem 0 ''B'' (box_country ''B'' ((20, 20), (30, 30))))\<lparr>statsDisplay := ''none''\<rparr>,
      (newItem 1 ''A'' (box_country ''A'' ((-1, -1), (1, 1))))
        \<lparr>statsDisplay := ''flex'',
         statsData :=
           Some [\<lparr>date = Some ''2015-01-01 00:00:00'', val = Fin 280, rawDate = ''2015-01-01 00:00:00''\<rparr>,
                 \<lparr>date = Some ''2016-01-01 00:00:00'', val = Fin 282, rawDate = ''2016-01-01 00:00:00''\<rparr>],
         chartMeta :=
           Some [\<lparr>date = Some ''2015-01-01 00:00:00'', val = Fin 280, rawDate = ''2015-01-01 00:00:00''\<rparr>,
                 \<lparr>date = Some ''2016-01-01 00:00:00'', val = Fin 282, rawDate = ''2016-01-01 00:00:00''\<rparr>],
         marker := Some (Shown \<lparr>date = Some ''2015-01-01 00:00:00'', val = Fin 280,
                                 rawDate = ''2015-01-01 00:00:00''\<rparr>)\<rparr>]"
proof -
  let ?fA = "box_country ''A'' ((-1, -1), (1, 1)) :: box feature"
  let ?fB = "box_country ''B'' ((20, 20), (30, 30)) :: box feature"
  let ?s0 = "initial_state [?fA, ?fB] :: (box, string) app_state"
  let ?s1 = "loadTemperatureData box_d3 timed_payload ?s0"
  let ?s2 = "handleClick ?fB ?s1"
  let ?s3 = "deferredDraw box_d3 ?s2"
  let ?s4 = "handleClick ?fA ?s3"
  let ?s5 = "deferredDraw box_d3 ?s4"
  have s1: "sidebar ?s1 = []" "pendingDraws ?s1 = []" "nextItemKey ?s1 = 0"
    "revealedCountries ?s1 = {}" "sliderValue ?s1 = 0"
    by (simp_all add: load_misc load_fields initial_fields timed_slider)
  have s2: "sidebar ?s2 = [newItem 0 ''B'' ?fB]" "pendingDraws ?s2 = [(0, ?fB)]"
    "nextItemKey ?s2 = 1" "revealedCountries ?s2 = {''B''}" "sliderValue ?s2 = 0"
    using s1
    by (simp_all add: handleClick_def Let_def updateBorderStyle_def addToSelectionList_def box_ids)
  have d2: "rawCoords ?s2 = Some [(0, 0), (10, 10)]"
    by (simp add: selection_fields timed_fields)
  have s3: "sidebar ?s3 = [(newItem 0 ''B'' ?fB)\<lparr>statsDisplay := ''none''\<rparr>]"
    "pendingDraws ?s3 = []" "nextItemKey ?s3 = 1" "revealedCountries ?s3 = {''B''}"
    "sliderValue ?s3 = 0"
    using s2 far_trend[of "?s2\<lparr>pendingDraws := []\<rparr>"] d2
    by (simp_all add: deferredDraw_def Let_def drawItem_def newItem_def)
  have s4: "sidebar ?s4 = [(newItem 0 ''B'' ?fB)\<lparr>statsDisplay := ''none''\<rparr>, newItem 1 ''A'' ?fA]"
    "pendingDraws ?s4 = [(1, ?fA)]" "sliderValue ?s4 = 0"
    using s3
    by (simp_all add: handleClick_def Let_def updateBorderStyle_def addToSelectionList_def box_ids)
  have d4: "rawCoords ?s4 = Some [(0, 0), (10, 10)]"
    "timePoints ?s4 = [''2015-01-01 00:00:00'', ''2016-01-01 00:00:00'']"
    "allTemperatureData ?s4 =
       Some [(''2015-01-01 00:00:00'', Some [Number (Fin 280), Number (Fin 290)]),
             (''2016-01-01 00:00:00'', Some [Number (Fin 282), Number (Fin 285)])]"
    "baselineData ?s4 ''01'' = Some [Number (Fin 280), Number (Fin 290)]"
    "isAnomalyMode ?s4 = False"
    by (simp_all add: selection_fields deferredDraw_fields timed_fields initial_state_def)
  have t4: "calculateCountryTrend box_d3 (?s4\<lparr>pendingDraws := []\<rparr>) ?fA =
     Inr (Some [\<lparr>date = Some ''2015-01-01 00:00:00'', val = Fin 280, rawDate = ''2015-01-01 00:00:00''\<rparr>,
                \<lparr>date = Some ''2016-01-01 00:00:00'', val = Fin 282, rawDate = ''2016-01-01 00:00:00''\<rparr>])"
    using d4 by (simp add: timed_trend)
  have "sidebar ?s5 =
     [(newItem 0 ''B'' ?fB)\<lparr>statsDisplay := ''none''\<rparr>,
      (newItem 1 ''A'' ?fA)
        \<lparr>statsDisplay := ''flex'',
         statsData :=
           Some [\<lparr>date = Some ''2015-01-01 00:00:00'', val = Fin 280, rawDate = ''2015-01-01 00:00:00''\<rparr>,
                 \<lparr>date = Some ''2016-01-01 00:00:00'', val = Fin 282, rawDate = ''2016-01-01 00:00:00''\<rparr>],
         chartMeta :=
           Some [\<lparr>date = Some ''2015-01-01 00:00:00'', val = Fin 280, rawDate = ''2015-01-01 00:00:00''\<rparr>,
                 \<lparr>date = Some ''2016-01-01 00:00:00'', val = Fin 282, rawDate = ''2016-01-01 00:00:00''\<rparr>],
         marker := Some (Shown \<lparr>date = Some ''2015-01-01 00:00:00'', val = Fin 280,
                                 rawDate = ''2015-01-01 00:00:00''\<rparr>)\<rparr>]"
    using s4 t4
    by (simp add: deferredDraw_def Let_def drawItem_def newItem_def updateCountryStats_def
        drawDetailedChart_def updateChartsSync_def syncItem_def)
  then show ?thesis by (simp add: no_data_scenario_def)
qed

lemma handleClick_border_features:
  "map fst (borders (handleClick f st)) = map fst (borders st)"
  unfolding handleClick_borders by (induction "borders st") (auto simp: case_prod_unfold)

lemma handleClick_pending:
  "getCountryId f \<notin> revealedCountries st \<Longrightarrow> pendingDraws (handleClick f st) \<noteq> []"
  by (simp add: handleClick_def Let_def updateBorderStyle_def addToSelectionList_def)

lemma scenario_reachable:
  "reachable box_d3 [box_country ''A'' ((-1, -1), (1, 1)), box_country ''B'' ((20, 20), (30, 30))]
     no_data_scenario"
proof -
  let ?fA = "box_country ''A'' ((-1, -1), (1, 1)) :: box feature"
  let ?fB = "box_country ''B'' ((20, 20), (30, 30)) :: box feature"
  let ?s0 = "initial_state [?fA, ?fB] :: (box, string) app_state"
  let ?s1 = "handle box_d3 (DataLoaded timed_payload) ?s0"
  let ?s2 = "handle box_d3 (CountryClick ?fB) ?s1"
  let ?s3 = "handle box_d3 DeferredDraw ?s2"
  let ?s4 = "handle box_d3 (CountryClick ?fA) ?s3"
  have b0: "borders ?s0 = [(?fA, \<lparr>stroke = ''#94a3b8'', stroke_width = ''0.5px''\<rparr>),
                            (?fB, \<lparr>stroke = ''#94a3b8'', stroke_width = ''0.5px''\<rparr>)]"
    by (simp add: initial_state_def)
  have r0: "reachable box_d3 [?fA, ?fB] ?s0" by (rule reachable.start)
  have r1: "reachable box_d3 [?fA, ?fB] ?s1"
    by (rule reachable.step[OF r0]) (simp add: initial_state_def)
  have b1: "map fst (borders ?s1) = [?fA, ?fB]"
    by (simp add: load_fields b0)
  have r2: "reachable box_d3 [?fA, ?fB] ?s2"
    by (rule reachable.step[OF r1]) (use b1 in \<open>simp flip: set_map\<close>)
  have p2: "pendingDraws ?s2 \<noteq> []"
    by (simp add: handleClick_pending load_fields initial_fields)
  have r3: "reachable box_d3 [?fA, ?fB] ?s3"
    by (rule reachable.step[OF r2]) (use p2 in simp)
  have b3: "map fst (borders ?s3) = [?fA, ?fB]"
    using b1 by (simp add: deferredDraw_fields handleClick_border_features)
  have r4: "reachable box_d3 [?fA, ?fB] ?s4"
    by (rule reachable.step[OF r3]) (use b3 in \<open>simp flip: set_map\<close>)
  have p4: "pendingDraws ?s4 \<noteq> []"
    by (simp add: handleClick_pending deferredDraw_fields handleClick_revealed load_fields
        initial_fields box_ids)
  have "reachable box_d3 [?fA, ?fB] (handle box_d3 DeferredDraw ?s4)"
    by (rule reachable.step[OF r4]) (use p4 in simp)
  then show ?thesis by (simp add: no_data_scenario_def)
qed

text \<open>
  Claim C7. The claim has each toggle recompute the series of every country of the list.
  In the state reached by loading the timed dataset and revealing first a country
  without a sample point, then a country that contains the first point, the toggle
  throws at the first item, whose trend is \<open>null\<close>: the mode is switched, but the series
  of the second country stays the absolute one, \<open>280, 282\<close>, where recomputing gives
  \<open>0, 2\<close>, and the heatmap is not rendered again.
\<close>

theorem toggle_aborts_on_no_data_country:
  "reachable box_d3 [box_country ''A'' ((-1, -1), (1, 1)), box_country ''B'' ((20, 20), (30, 30))]
     no_data_scenario
   \<and> map countryId (sidebar no_data_scenario) = [''B'', ''A'']
   \<and> calculateCountryTrend box_d3 no_data_scenario (box_country ''B'' ((20, 20), (30, 30))) = Inr None
   \<and> \<not> completed (toggleAnomalyMode box_d3 True no_data_scenario)
   \<and> isAnomalyMode (final (toggleAnomalyMode box_d3 True no_data_scenario))
   \<and> map chartMeta (sidebar (final (toggleAnomalyMode box_d3 True no_data_scenario))) =
       [None,
        Some [\<lparr>date = Some ''2015-01-01 00:00:00'', val = Fin 280, rawDate = ''2015-01-01 00:00:00''\<rparr>,
              \<lparr>date = Some ''2016-01-01 00:00:00'', val = Fin 282, rawDate = ''2016-01-01 00:00:00''\<rparr>]]
   \<and> calculateCountryTrend box_d3 (final (toggleAnomalyMode box_d3 True no_data_scenario))
         (box_country ''A'' ((-1, -1), (1, 1))) =
       Inr (Some [\<lparr>date = Some ''2015-01-01 00:00:00'', val = Fin 0, rawDate = ''2015-01-01 00:00:00''\<rparr>,
                  \<lparr>date = Some ''2016-01-01 00:00:00'', val = Fin 2, rawDate = ''2016-01-01 00:00:00''\<rparr>])
   \<and> heatmapCircles (final (toggleAnomalyMode box_d3 True no_data_scenario)) =
       heatmapCircles no_data_scenario"
proof -
  let ?fB = "box_country ''B'' ((20, 20), (30, 30)) :: box feature"
  let ?sA = "no_data_scenario\<lparr>isAnomalyMode := True, currentColorScale := anomalyColorScale,
      legendAnomaly := True\<rparr>"
  have ids: "map countryId (sidebar no_data_scenario) = [''B'', ''A'']"
    by (simp add: scenario_sidebar newItem_def)
  have tB: "calculateCountryTrend box_d3 no_data_scenario ?fB = Inr None"
    by (rule far_trend) (rule scenario_data)
  have tB': "calculateCountryTrend box_d3 ?sA ?fB = Inr None"
    by (rule far_trend) (simp add: scenario_data)
  have fe: "forEach_outcome (refreshItem box_d3 ?sA) (sidebar no_data_scenario) =
      Thrown TypeError ((newItem 0 ''B'' ?fB)\<lparr>statsDisplay := ''none''\<rparr> # tl (sidebar no_data_scenario))"
    by (simp add: scenario_sidebar refreshItem_def newItem_def tB' updateCountryStats_def
        drawDetailedChart_def)
  have nc: "\<not> completed (toggleAnomalyMode box_d3 True no_data_scenario)"
    by (simp add: toggleAnomalyMode_def Let_def fe)
  have fin: "final (toggleAnomalyMode box_d3 True no_data_scenario) =
      ?sA\<lparr>sidebar := (newItem 0 ''B'' ?fB)\<lparr>statsDisplay := ''none''\<rparr> # tl (sidebar no_data_scenario)\<rparr>"
    by (simp add: toggle_final fe)
  have charts: "map chartMeta (sidebar (final (toggleAnomalyMode box_d3 True no_data_scenario))) =
       [None,
        Some [\<lparr>date = Some ''2015-01-01 00:00:00'', val = Fin 280, rawDate = ''2015-01-01 00:00:00''\<rparr>,
              \<lparr>date = Some ''2016-01-01 00:00:00'', val = Fin 282, rawDate = ''2016-01-01 00:00:00''\<rparr>]]"
    by (simp add: fin scenario_sidebar newItem_def)
  have tA: "calculateCountryTrend box_d3 (final (toggleAnomalyMode box_d3 True no_data_scenario))
         (box_country ''A'' ((-1, -1), (1, 1))) =
       Inr (Some [\<lparr>date = Some ''2015-01-01 00:00:00'', val = Fin 0, rawDate = ''2015-01-01 00:00:00''\<rparr>,
                  \<lparr>date = Some ''2016-01-01 00:00:00'', val = Fin 2, rawDate = ''2016-01-01 00:00:00''\<rparr>])"
    by (simp add: timed_trend toggle_fields scenario_data)
  have hm: "heatmapCircles (final (toggleAnomalyMode box_d3 True no_data_scenario)) =
       heatmapCircles no_data_scenario"
    by (simp add: fin)
  from scenario_reachable ids tB nc charts tA hm show ?thesis
    by (simp add: toggle_fields)
qed

end
